theory Spec2Isabelle
  imports Main "HOL-Library.Sublist"
begin

section \<open>Parley: the turn-taking logic of the voice front end\<close>

text \<open>
  The repository holds two copies of the component \<^verbatim>\<open>ResponsiveAIAssistant\<close>:
  \<^item> the one that \<^verbatim>\<open>App.tsx\<close> mounts (it takes the props \<^verbatim>\<open>sessionData\<close> and
    \<^verbatim>\<open>setSessionData\<close>), which speaks every streamed chunk with the browser's speech
    synthesis; its definitions carry the suffix \<open>_syn\<close>;
  \<^item> the one without props, which plays one server-rendered audio clip per response
    through a queue of \<^verbatim>\<open>Audio\<close> elements; its definitions carry the suffix
    \<open>_clip\<close>.

  A handler of the component is a function from state to state. The state is one
  record: the \<^verbatim>\<open>useState\<close> variables and the \<^verbatim>\<open>useRef\<close> cells under their
  own names, and, for the world outside the component, the list \<open>effects\<close> of the
  commands issued so far (oldest first), the clock that \<^verbatim>\<open>Date.now()\<close> reads, and
  what the browser is playing.

  A function of the component is built anew in every render, and the state variables
  it names are the constants of that render. A handler that the user reaches through the
  page (\<^verbatim>\<open>onClick\<close>, \<^verbatim>\<open>onKeyPress\<close>) and an effect with dependencies belong to
  the latest render: they read the current state. The handlers of the detector and of
  the socket are registered once, by the effect on \<^verbatim>\<open>[]\<close>: they, the timers they
  set and the functions they call (\<^verbatim>\<open>handleSendMessage\<close>, \<^verbatim>\<open>speakChunk\<close>) belong
  to the first render for good. Such a function takes the render it belongs to as its
  first argument \<open>r\<close>, a state record: it reads the state variables in \<open>r\<close> and
  the refs in the current state \<open>s\<close>, and it writes to \<open>s\<close>. The handlers that
  are registered are those of \<open>first_render_syn\<close> and \<open>first_render_clip\<close>.
\<close>

subsection \<open>Strings\<close>

text \<open>
  \<^verbatim>\<open>String.prototype.trim\<close> removes white space at both ends. Strings are lists of
  8-bit characters here; of JavaScript's white space these are the characters
  TAB, LF, VT, FF, CR, SPACE and NBSP.
\<close>

definition is_space :: "char \<Rightarrow> bool" where
  "is_space c = (of_char c \<in> {9, 10, 11, 12, 13, 32, 160 :: nat})"

definition trim :: "string \<Rightarrow> string" where
  "trim t = rev (dropWhile is_space (rev (dropWhile is_space t)))"

text \<open>\<^verbatim>\<open>a || b\<close> on strings: the empty string is falsy.\<close>

definition or_else :: "string \<Rightarrow> string \<Rightarrow> string" where
  "or_else a b = (if a \<noteq> [] then a else b)"

subsection \<open>Messages, detector events, commands\<close>

datatype sender = User | AI

text \<open>
  A message id is either \<^verbatim>\<open>`history-${idx}`\<close> or \<^verbatim>\<open>Date.now().toString()\<close>.
\<close>

datatype message_id = History_id nat | Time_id nat

record message =
  msg_id :: message_id
  msg_text :: string
  msg_sender :: sender
  msg_timestamp :: nat

text \<open>An entry of the history array that \<^verbatim>\<open>session_joined\<close> carries.\<close>

record history_entry =
  role :: string
  content :: string

text \<open>
  One entry of \<^verbatim>\<open>event.results\<close>: the transcript of its first alternative and its
  \<^verbatim>\<open>isFinal\<close> flag.
\<close>

record speech_result =
  transcript :: string
  isFinal :: bool

record speech_event =
  resultIndex :: nat
  results :: "speech_result list"

record session_data =
  sd_sessionId :: string
  sd_filename :: string
  sd_initialMessage :: string

text \<open>The callbacks handed to \<^verbatim>\<open>setTimeout\<close>, named after the handler that sets them.\<close>

datatype timer = OnError_restart | OnEnd_restart | AiComplete_restart | Silence_timer

datatype effect =
    Emit_join_session string
  | Emit_user_message string string
  | Alert string
  | Recognition_start
  | Recognition_stop
  | Speak string
  | Synth_cancel
  | Audio_play nat string
  | Audio_pause nat
  | SetTimeout timer nat
  | ClearTimeout timer
  | Console_error string

text \<open>
  The state that both copies of the component declare; \<open>'m\<close> is the component's
  type \<^verbatim>\<open>Message\<close>.
\<close>

record 'm core =
  messages :: "'m list"
  inputText :: string
  isListening :: bool
  isSpeaking :: bool
  showChat :: bool
  recognition :: bool
  socket :: bool
  socketRef :: bool
  sessionId :: string
  sessionIdRef :: string
  isConnected :: bool
  currentAIMessage :: string
  isAIResponding :: bool
  conversationMode :: bool
  audioMode :: bool
  interimTranscript :: string
  isRecognitionRunningRef :: bool
  lastTranscriptRef :: string
  clock :: nat
  effects :: "effect list"

text \<open>
  \<open>recognition\<close>, \<open>socket\<close> and \<open>socketRef\<close> say whether the variable holds an
  object (\<open>True\<close>) or \<^verbatim>\<open>null\<close>.
\<close>

definition issue :: "effect list \<Rightarrow> ('m, 'a) core_scheme \<Rightarrow> ('m, 'a) core_scheme" where
  "issue es s = s\<lparr>effects := effects s @ es\<rparr>"

text \<open>The submissions sent to the transport, oldest first: session id and text.\<close>

fun user_messages :: "effect list \<Rightarrow> (string \<times> string) list" where
  "user_messages [] = []"
| "user_messages (Emit_user_message sid t # es) = (sid, t) # user_messages es"
| "user_messages (e # es) = user_messages es"

text \<open>The loop of \<^verbatim>\<open>onresult\<close> over the results, with its two accumulators.\<close>

fun scan_results :: "speech_result list \<Rightarrow> string \<times> string \<Rightarrow> string \<times> string" where
  "scan_results [] (interimText, finalText) = (interimText, finalText)"
| "scan_results (r # rs) (interimText, finalText) =
     (if isFinal r then scan_results rs (interimText, finalText @ transcript r)
      else scan_results rs (interimText @ transcript r, finalText))"

definition interimText_of :: "speech_event \<Rightarrow> string" where
  "interimText_of ev = fst (scan_results (drop (resultIndex ev) (results ev)) ([], []))"

definition finalText_of :: "speech_event \<Rightarrow> string" where
  "finalText_of ev = snd (scan_results (drop (resultIndex ev) (results ev)) ([], []))"

subsection \<open>The component that speaks with the browser's synthesis\<close>

text \<open>
  An utterance handed to \<^verbatim>\<open>speechSynthesis.speak\<close> is either one that
  \<^verbatim>\<open>processNextSpeech\<close> built (its \<^verbatim>\<open>onend\<close> and \<^verbatim>\<open>onerror\<close> call
  \<^verbatim>\<open>processNextSpeech\<close>) or one that \<^verbatim>\<open>handleSpeak\<close> built (they call
  \<^verbatim>\<open>setIsSpeaking(false)\<close>).
\<close>

datatype utterance = Queued string | Replay string

record syn_state = "message core" +
  speechSynthesis :: bool
  sessionData :: "session_data option"
  speechQueueRef :: "string list"
  isSpeakingRef :: bool
  isConversationLocked :: bool
  synth :: "utterance list"

text \<open>
  \<open>synth\<close> is the browser's side of the synthesis: the utterances passed to
  \<^verbatim>\<open>speak\<close> whose \<^verbatim>\<open>end\<close> or \<^verbatim>\<open>error\<close> event has not been delivered yet.
\<close>

definition activeSessionId_syn :: "syn_state \<Rightarrow> string" where
  "activeSessionId_syn s =
     or_else (case sessionData s of None \<Rightarrow> [] | Some d \<Rightarrow> sd_sessionId d)
       (or_else (sessionIdRef s) (sessionId s))"

definition not_connected_notice :: string where
  "not_connected_notice = ''Not connected to server. Please wait...''"

definition handleSendMessage_syn :: "string option \<Rightarrow> syn_state \<Rightarrow> syn_state" where
  "handleSendMessage_syn messageText s =
     (let textToSend = or_else (case messageText of None \<Rightarrow> [] | Some t \<Rightarrow> t) (inputText s);
          activeSocket = (socketRef s \<or> socket s);
          activeSessionId = activeSessionId_syn s
      in if trim textToSend = [] \<or> \<not> activeSocket \<or> activeSessionId = [] then
           (if \<not> activeSocket \<or> activeSessionId = [] then issue [Alert not_connected_notice] s
            else s)
         else
           (issue [Emit_user_message activeSessionId textToSend]
              (s\<lparr>messages := messages s @
                    [\<lparr>msg_id = Time_id (clock s), msg_text = textToSend,
                      msg_sender = User, msg_timestamp = clock s\<rparr>],
                  showChat := True\<rparr>))
           \<lparr>inputText := []\<rparr>)"


text \<open>
  \<^verbatim>\<open>handleSendMessage\<close> as built in the render \<open>r\<close>: the input text, the socket,
  the session id and the session data are those of \<open>r\<close>, the refs are current.
\<close>

definition handleSendMessage_syn_in ::
  "syn_state \<Rightarrow> string option \<Rightarrow> syn_state \<Rightarrow> syn_state" where
  "handleSendMessage_syn_in r messageText s =
     (let textToSend = or_else (case messageText of None \<Rightarrow> [] | Some t \<Rightarrow> t) (inputText r);
          activeSocket = (socketRef s \<or> socket r);
          activeSessionId =
            or_else (case sessionData r of None \<Rightarrow> [] | Some d \<Rightarrow> sd_sessionId d)
              (or_else (sessionIdRef s) (sessionId r))
      in if trim textToSend = [] \<or> \<not> activeSocket \<or> activeSessionId = [] then
           (if \<not> activeSocket \<or> activeSessionId = [] then issue [Alert not_connected_notice] s
            else s)
         else
           (issue [Emit_user_message activeSessionId textToSend]
              (s\<lparr>messages := messages s @
                    [\<lparr>msg_id = Time_id (clock s), msg_text = textToSend,
                      msg_sender = User, msg_timestamp = clock s\<rparr>],
                  showChat := True\<rparr>))
           \<lparr>inputText := []\<rparr>)"

subsubsection \<open>The speech queue\<close>

text \<open>\<^verbatim>\<open>speechSynthesis.speak(utterance)\<close>.\<close>

definition speak :: "utterance \<Rightarrow> syn_state \<Rightarrow> syn_state" where
  "speak u s =
     issue [Speak (case u of Queued t \<Rightarrow> t | Replay t \<Rightarrow> t)] (s\<lparr>synth := synth s @ [u]\<rparr>)"

definition processNextSpeech :: "syn_state \<Rightarrow> syn_state" where
  "processNextSpeech s =
     (case speechQueueRef s of
        [] \<Rightarrow> s\<lparr>isSpeakingRef := False, isSpeaking := False\<rparr>
      | t # rest \<Rightarrow>
          speak (Queued t)
            (s\<lparr>isSpeakingRef := True, isSpeaking := True, speechQueueRef := rest\<rparr>))"

definition speakChunk :: "string \<Rightarrow> syn_state \<Rightarrow> syn_state" where
  "speakChunk t s =
     (if \<not> speechSynthesis s \<or> trim t = [] then s
      else let s1 = s\<lparr>speechQueueRef := speechQueueRef s @ [t]\<rparr>
           in if \<not> isSpeakingRef s1 then processNextSpeech s1 else s1)"

text \<open>
  \<^verbatim>\<open>speakChunk\<close> as built in the render \<open>r\<close>: the synthesis is the one that
  \<open>r\<close> holds.
\<close>

definition speakChunk_in :: "syn_state \<Rightarrow> string \<Rightarrow> syn_state \<Rightarrow> syn_state" where
  "speakChunk_in r t s =
     (if \<not> speechSynthesis r \<or> trim t = [] then s
      else let s1 = s\<lparr>speechQueueRef := speechQueueRef s @ [t]\<rparr>
           in if \<not> isSpeakingRef s1 then processNextSpeech s1 else s1)"

text \<open>The callbacks of an utterance, by the function that built it.\<close>

fun utterance_onend :: "utterance \<Rightarrow> syn_state \<Rightarrow> syn_state" where
  "utterance_onend (Queued t) s = processNextSpeech s"
| "utterance_onend (Replay t) s = s\<lparr>isSpeaking := False\<rparr>"

fun utterance_onerror :: "utterance \<Rightarrow> syn_state \<Rightarrow> syn_state" where
  "utterance_onerror (Queued t) s = processNextSpeech s"
| "utterance_onerror (Replay t) s = s\<lparr>isSpeaking := False\<rparr>"

fun utterance_onstart :: "utterance \<Rightarrow> syn_state \<Rightarrow> syn_state" where
  "utterance_onstart (Queued t) s = s"
| "utterance_onstart (Replay t) s = s\<lparr>isSpeaking := True\<rparr>"

definition handleSpeak_syn :: "string \<Rightarrow> syn_state \<Rightarrow> syn_state" where
  "handleSpeak_syn t s =
     (if \<not> speechSynthesis s then
        issue [Alert ''Speech synthesis is not supported in your browser.''] s
      else if isSpeaking s then
        (issue [Synth_cancel] (s\<lparr>synth := []\<rparr>))
          \<lparr>speechQueueRef := [], isSpeakingRef := False, isSpeaking := False\<rparr>
      else speak (Replay t) s)"

text \<open>
  The browser delivers the \<^verbatim>\<open>end\<close> or the \<^verbatim>\<open>error\<close> event of the utterance it
  is speaking, the oldest one it holds; with no utterance there is no event.
\<close>

datatype playback_event = Enqueue string | Utterance_end | Utterance_error

fun playback_syn :: "playback_event \<Rightarrow> syn_state \<Rightarrow> syn_state" where
  "playback_syn (Enqueue t) s = speakChunk t s"
| "playback_syn Utterance_end s =
     (case synth s of [] \<Rightarrow> s | u # us \<Rightarrow> utterance_onend u (s\<lparr>synth := us\<rparr>))"
| "playback_syn Utterance_error s =
     (case synth s of [] \<Rightarrow> s | u # us \<Rightarrow> utterance_onerror u (s\<lparr>synth := us\<rparr>))"

fun run_playback_syn :: "playback_event list \<Rightarrow> syn_state \<Rightarrow> syn_state" where
  "run_playback_syn [] s = s"
| "run_playback_syn (e # es) s = run_playback_syn es (playback_syn e s)"

text \<open>The texts handed to the synthesis, in the order of the calls.\<close>

fun spoken :: "effect list \<Rightarrow> string list" where
  "spoken [] = []"
| "spoken (Speak t # es) = t # spoken es"
| "spoken (e # es) = spoken es"


subsubsection \<open>The detector's handlers\<close>

text \<open>All of them are registered by the effect on \<^verbatim>\<open>[]\<close>.\<close>

definition onresult_syn :: "speech_event \<Rightarrow> syn_state \<Rightarrow> syn_state" where
  "onresult_syn ev s =
     (let currentText = or_else (finalText_of ev) (interimText_of ev)
      in if currentText \<noteq> [] then
           s\<lparr>lastTranscriptRef := currentText, interimTranscript := currentText\<rparr>
         else s)"

definition onspeechend_syn :: "syn_state \<Rightarrow> syn_state" where
  "onspeechend_syn s = issue [Recognition_stop] s"

definition onspeechstart_syn :: "syn_state \<Rightarrow> syn_state" where
  "onspeechstart_syn s = s\<lparr>lastTranscriptRef := []\<rparr>"

definition onerror_syn :: "syn_state \<Rightarrow> string \<Rightarrow> syn_state \<Rightarrow> syn_state" where
  "onerror_syn r err s =
     (if err = ''no-speech'' \<or> err = ''aborted'' then
        (if conversationMode r \<and> \<not> isConversationLocked r then
           issue [SetTimeout OnError_restart 1000] s
         else s)
      else s\<lparr>conversationMode := False, isListening := False, isConversationLocked := True\<rparr>)"

text \<open>
  The timer of \<^verbatim>\<open>onerror\<close>: \<^verbatim>\<open>recognition?.start()\<close>, outside any \<^verbatim>\<open>try\<close>;
  \<^verbatim>\<open>recognition\<close> is the state variable of the render, not the detector that the
  effect has just built.
\<close>

definition onerror_restart ::
  "('m, 'a) core_scheme \<Rightarrow> ('n, 'b) core_scheme \<Rightarrow> ('n, 'b) core_scheme" where
  "onerror_restart r s = (if recognition r then issue [Recognition_start] s else s)"

text \<open>
  The timers of \<^verbatim>\<open>onend\<close> and of \<^verbatim>\<open>ai_complete\<close> have the same body. The call
  \<^verbatim>\<open>recognition.start()\<close> stands in a \<^verbatim>\<open>try\<close>: on \<^verbatim>\<open>null\<close> it raises before
  the detector is reached, and the detector itself may raise (\<open>start_raises\<close>); in both
  cases the flag stays as it was and the error is logged.
\<close>

definition restart_syn :: "syn_state \<Rightarrow> bool \<Rightarrow> syn_state \<Rightarrow> syn_state" where
  "restart_syn r start_raises s =
     (if \<not> isRecognitionRunningRef s then
        (if \<not> recognition r then issue [Console_error ''[Speech] Failed to restart:''] s
         else if start_raises then
           issue [Recognition_start, Console_error ''[Speech] Failed to restart:''] s
         else (issue [Recognition_start] s)\<lparr>isRecognitionRunningRef := True\<rparr>)
      else s)"

definition settle_delay :: "('m, 'a) core_scheme \<Rightarrow> nat" where
  "settle_delay r = (if audioMode r then 1500 else 500)"

definition onend_syn :: "syn_state \<Rightarrow> syn_state \<Rightarrow> syn_state" where
  "onend_syn r s =
     (let s1 = s\<lparr>isRecognitionRunningRef := False\<rparr>;
          textToSend = trim (lastTranscriptRef s1);
          s2 = (if textToSend \<noteq> [] \<and> conversationMode r then
                  (handleSendMessage_syn_in r (Some textToSend) s1)
                    \<lparr>interimTranscript := [], lastTranscriptRef := []\<rparr>
                else s1)
      in if conversationMode r \<and> \<not> isAIResponding r \<and> \<not> isConversationLocked r then
           issue [SetTimeout OnEnd_restart (settle_delay r)] s2
         else s2\<lparr>isListening := False\<rparr>)"


subsubsection \<open>The transport's handlers\<close>

text \<open>All of them are registered by the effect on \<^verbatim>\<open>[]\<close>.\<close>

definition socket_connect :: "('m, 'a) core_scheme \<Rightarrow> ('m, 'a) core_scheme" where
  "socket_connect s = s\<lparr>isConnected := True\<rparr>"

definition socket_disconnect :: "('m, 'a) core_scheme \<Rightarrow> ('m, 'a) core_scheme" where
  "socket_disconnect s = s\<lparr>isConnected := False\<rparr>"

definition connected_syn :: "string \<Rightarrow> syn_state \<Rightarrow> syn_state" where
  "connected_syn sid s = issue [Emit_join_session sid] (s\<lparr>sessionId := sid, sessionIdRef := sid\<rparr>)"

text \<open>
  \<^verbatim>\<open>data.history.map((msg, idx) => ...)\<close>, the index counting from \<open>i\<close>.
\<close>

fun load_history :: "nat \<Rightarrow> nat \<Rightarrow> history_entry list \<Rightarrow> message list" where
  "load_history now i [] = []"
| "load_history now i (h # hs) =
     \<lparr>msg_id = History_id i, msg_text = content h,
      msg_sender = (if role h = ''user'' then User else AI), msg_timestamp = now\<rparr>
     # load_history now (Suc i) hs"

text \<open>
  The payload of \<^verbatim>\<open>session_joined\<close>: the session id and the history, which may be
  absent.
\<close>

definition session_joined_syn ::
  "syn_state \<Rightarrow> string \<Rightarrow> history_entry list option \<Rightarrow> syn_state \<Rightarrow> syn_state" where
  "session_joined_syn r sid history s =
     (let s1 = s\<lparr>isConnected := True, sessionIdRef := sid\<rparr>
      in case history of
           None \<Rightarrow> s1
         | Some h \<Rightarrow>
             if sessionData r = None \<and> h \<noteq> [] then
               (let lastAIMessage = find (\<lambda>msg. role msg = ''tutor'') (rev h);
                    s2 = (case lastAIMessage of
                            None \<Rightarrow> s1
                          | Some msg \<Rightarrow>
                              if audioMode r then speakChunk_in r (content msg) s1 else s1)
                in s2\<lparr>messages := load_history (clock s2) 0 h, showChat := True\<rparr>)
             else s1)"

definition ai_start :: "('m, 'a) core_scheme \<Rightarrow> ('m, 'a) core_scheme" where
  "ai_start s = s\<lparr>isAIResponding := True, currentAIMessage := []\<rparr>"

definition ai_chunk_syn :: "syn_state \<Rightarrow> string \<Rightarrow> syn_state \<Rightarrow> syn_state" where
  "ai_chunk_syn r c s =
     (let s1 = s\<lparr>currentAIMessage := currentAIMessage s @ c\<rparr>
      in if audioMode r then speakChunk_in r c s1 else s1)"

definition ai_complete_syn :: "syn_state \<Rightarrow> string \<Rightarrow> syn_state \<Rightarrow> syn_state" where
  "ai_complete_syn r fullResponse s =
     (let s1 = s\<lparr>isAIResponding := False,
                  messages := messages s @
                    [\<lparr>msg_id = Time_id (clock s), msg_text = fullResponse,
                      msg_sender = AI, msg_timestamp = clock s\<rparr>],
                  currentAIMessage := []\<rparr>
      in if conversationMode r \<and> recognition r \<and> \<not> isConversationLocked r then
           issue [SetTimeout AiComplete_restart (settle_delay r)] s1
         else s1)"

subsubsection \<open>The user's commands\<close>

text \<open>
  They are reached through the page and belong to the latest render, as does
  \<^verbatim>\<open>handleSendMessage\<close> on the Enter key and on the Send button.
\<close>

definition handleVoiceInput_syn :: "bool \<Rightarrow> syn_state \<Rightarrow> syn_state" where
  "handleVoiceInput_syn start_raises s =
     (if \<not> recognition s then
        issue [Alert ''Speech recognition is not supported in your browser.''] s
      else if isListening s then
        (issue [Recognition_stop] s)\<lparr>isRecognitionRunningRef := False, isListening := False\<rparr>
      else if \<not> isRecognitionRunningRef s then
        (if start_raises then
           issue [Recognition_start, Console_error ''[Speech] Failed to start:''] s
         else (issue [Recognition_start] s)\<lparr>isRecognitionRunningRef := True, isListening := True\<rparr>)
      else s)"

definition toggleConversationMode_syn :: "bool \<Rightarrow> syn_state \<Rightarrow> syn_state" where
  "toggleConversationMode_syn start_raises s =
     (if \<not> recognition s then issue [Alert ''Speech recognition not supported''] s
      else if conversationMode s then
        (issue [Recognition_stop] s)
          \<lparr>isRecognitionRunningRef := False, conversationMode := False, audioMode := False,
           isListening := False, isConversationLocked := True\<rparr>
      else if \<not> isConversationLocked s then
        (if \<not> isRecognitionRunningRef s then
           (if start_raises then
              issue [Recognition_start,
                     Console_error ''[Speech] Failed to start conversation mode:''] s
            else (issue [Recognition_start] s)
                   \<lparr>isRecognitionRunningRef := True, conversationMode := True,
                    audioMode := True, isListening := True\<rparr>)
         else s)
      else s)"

text \<open>
  The effect on \<^verbatim>\<open>[sessionData, showChat, messages.length]\<close>, which loads the
  first message of an uploaded document and resets the chat when the document goes.
\<close>

definition sessionData_effect :: "syn_state \<Rightarrow> syn_state" where
  "sessionData_effect s =
     (case sessionData s of
        Some d \<Rightarrow>
          if \<not> showChat s then
            (let s1 = s\<lparr>showChat := True\<rparr>;
                 hasInitialMessage = (sd_initialMessage d \<in> set (map msg_text (messages s1)))
             in if sd_initialMessage d \<noteq> [] \<and> \<not> hasInitialMessage then
                  s1\<lparr>messages := messages s1 @
                        [\<lparr>msg_id = Time_id (clock s1), msg_text = sd_initialMessage d,
                          msg_sender = AI, msg_timestamp = clock s1\<rparr>]\<rparr>
                else s1)
          else s
      | None \<Rightarrow>
          if messages s \<noteq> [] then
            s\<lparr>messages := [], showChat := False, isConversationLocked := True\<rparr>
          else s)"


subsection \<open>The component that plays server-rendered clips\<close>

record clip_message = message +
  audioUrl :: "string option"

text \<open>
  An \<^verbatim>\<open>Audio\<close> element is known by the number of elements built before it: the
  handlers compare elements by identity. \<open>playing\<close> is the browser's side: the elements
  on which \<^verbatim>\<open>play()\<close> was called and which have neither ended, failed nor been
  paused. \<open>silenceTimer\<close> says whether the variable holds a timer.
\<close>

record clip_state = "clip_message core" +
  audioQueueRef :: "string list"
  currentAudioRef :: "nat option"
  audioModeRef :: bool
  micEnabledRef :: bool
  silenceTimer :: bool
  next_audio :: nat
  playing :: "nat list"

subsubsection \<open>The clip queue\<close>

text \<open>
  \<^verbatim>\<open>pause()\<close> raises nothing, so the \<^verbatim>\<open>catch\<close> around it has no branch here.
\<close>

definition stopCurrentAudio :: "clip_state \<Rightarrow> clip_state" where
  "stopCurrentAudio s =
     (case currentAudioRef s of
        Some a \<Rightarrow>
          (issue [Audio_pause a] (s\<lparr>playing := removeAll a (playing s)\<rparr>))
            \<lparr>currentAudioRef := None, isSpeaking := False\<rparr>
      | None \<Rightarrow> s\<lparr>isSpeaking := False\<rparr>)"

text \<open>
  \<^verbatim>\<open>shift()\<close> takes the head off the queue before the test \<^verbatim>\<open>!nextUrl\<close>, which
  an empty queue and an empty url both fail.
\<close>

definition playNextAudio :: "clip_state \<Rightarrow> clip_state" where
  "playNextAudio s =
     (if \<not> audioModeRef s then s
      else if currentAudioRef s \<noteq> None then s
      else case audioQueueRef s of
             [] \<Rightarrow> s\<lparr>isSpeaking := False\<rparr>
           | nextUrl # rest \<Rightarrow>
               if nextUrl = [] then s\<lparr>audioQueueRef := rest, isSpeaking := False\<rparr>
               else
                 issue [Audio_play (next_audio s) nextUrl]
                   (s\<lparr>audioQueueRef := rest, currentAudioRef := Some (next_audio s),
                      next_audio := Suc (next_audio s),
                      playing := playing s @ [next_audio s]\<rparr>))"

definition handleComplete :: "nat \<Rightarrow> clip_state \<Rightarrow> clip_state" where
  "handleComplete audio s =
     (let s1 = (if currentAudioRef s = Some audio then s\<lparr>currentAudioRef := None\<rparr> else s);
          s2 = (if audioQueueRef s1 = [] then s1\<lparr>isSpeaking := False\<rparr> else s1)
      in playNextAudio s2)"

definition audio_onended :: "nat \<Rightarrow> clip_state \<Rightarrow> clip_state" where
  "audio_onended audio s = handleComplete audio s"

definition audio_onerror :: "nat \<Rightarrow> clip_state \<Rightarrow> clip_state" where
  "audio_onerror audio s = handleComplete audio (issue [Console_error ''[Audio] Playback error:''] s)"

text \<open>The two outcomes of the promise that \<^verbatim>\<open>audio.play()\<close> returns.\<close>

definition play_resolved :: "clip_state \<Rightarrow> clip_state" where
  "play_resolved s = s\<lparr>isSpeaking := True\<rparr>"

definition play_rejected :: "nat \<Rightarrow> clip_state \<Rightarrow> clip_state" where
  "play_rejected audio s =
     handleComplete audio (issue [Console_error ''[Audio] Failed to start playback:''] s)"

definition enqueueAudio :: "string \<Rightarrow> clip_state \<Rightarrow> clip_state" where
  "enqueueAudio url s =
     (if url = [] then s
      else let s1 = s\<lparr>audioQueueRef := audioQueueRef s @ [url]\<rparr>
           in if audioModeRef s1 then playNextAudio s1 else s1)"

text \<open>
  The effect on \<^verbatim>\<open>[audioMode]\<close>, which runs when the render has a new value.
  \<open>setAudioMode_clip\<close> is \<^verbatim>\<open>setAudioMode\<close> together with the effect of the render
  that follows, as one step.
\<close>

definition audioMode_effect :: "clip_state \<Rightarrow> clip_state" where
  "audioMode_effect s =
     (let s1 = s\<lparr>audioModeRef := audioMode s\<rparr>
      in if \<not> audioMode s1 then stopCurrentAudio (s1\<lparr>audioQueueRef := []\<rparr>)
         else playNextAudio s1)"

definition setAudioMode_clip :: "bool \<Rightarrow> clip_state \<Rightarrow> clip_state" where
  "setAudioMode_clip b s = (if audioMode s = b then s else audioMode_effect (s\<lparr>audioMode := b\<rparr>))"

text \<open>
  What can happen to the queue: a clip is enqueued, the browser reports on an element
  (it ended, it failed, its \<^verbatim>\<open>play()\<close> was refused or went through), the user
  switches the audio output. An element that ended or failed plays no more.
\<close>

datatype clip_event =
    Enqueue_clip string
  | Audio_ended nat
  | Audio_error nat
  | Play_rejected nat
  | Play_resolved
  | Set_audio bool

fun playback_clip :: "clip_event \<Rightarrow> clip_state \<Rightarrow> clip_state" where
  "playback_clip (Enqueue_clip url) s = enqueueAudio url s"
| "playback_clip (Audio_ended a) s = audio_onended a (s\<lparr>playing := removeAll a (playing s)\<rparr>)"
| "playback_clip (Audio_error a) s = audio_onerror a (s\<lparr>playing := removeAll a (playing s)\<rparr>)"
| "playback_clip (Play_rejected a) s = play_rejected a (s\<lparr>playing := removeAll a (playing s)\<rparr>)"
| "playback_clip Play_resolved s = play_resolved s"
| "playback_clip (Set_audio b) s = setAudioMode_clip b s"

fun run_playback_clip :: "clip_event list \<Rightarrow> clip_state \<Rightarrow> clip_state" where
  "run_playback_clip [] s = s"
| "run_playback_clip (e # es) s = run_playback_clip es (playback_clip e s)"

text \<open>The urls handed to \<^verbatim>\<open>play()\<close>, in the order of the calls.\<close>

fun played :: "effect list \<Rightarrow> string list" where
  "played [] = []"
| "played (Audio_play a url # es) = url # played es"
| "played (e # es) = played es"

subsubsection \<open>Submission and the detector's handlers\<close>

text \<open>
  \<^verbatim>\<open>handleSendMessage\<close> belongs to the latest render when the page calls it; the
  handlers of the detector, registered by the effect on \<^verbatim>\<open>[]\<close>, call the one
  of their render, \<open>handleSendMessage_clip_in\<close>.
\<close>

definition handleSendMessage_clip :: "string option \<Rightarrow> clip_state \<Rightarrow> clip_state" where
  "handleSendMessage_clip messageText s =
     (let textToSend = or_else (case messageText of None \<Rightarrow> [] | Some t \<Rightarrow> t) (inputText s);
          activeSocket = (socketRef s \<or> socket s);
          activeSessionId = or_else (sessionIdRef s) (sessionId s)
      in if trim textToSend = [] \<or> \<not> activeSocket \<or> activeSessionId = [] then
           (if \<not> activeSocket \<or> activeSessionId = [] then
              issue [Console_error ''[Message] Cannot send:'', Alert not_connected_notice] s
            else issue [Console_error ''[Message] Cannot send:''] s)
         else
           (issue [Emit_user_message activeSessionId textToSend]
              (s\<lparr>messages := messages s @
                    [\<lparr>msg_id = Time_id (clock s), msg_text = textToSend,
                      msg_sender = User, msg_timestamp = clock s, audioUrl = None\<rparr>],
                  showChat := True\<rparr>))
           \<lparr>inputText := []\<rparr>)"

definition handleSendMessage_clip_in ::
  "clip_state \<Rightarrow> string option \<Rightarrow> clip_state \<Rightarrow> clip_state" where
  "handleSendMessage_clip_in r messageText s =
     (let textToSend = or_else (case messageText of None \<Rightarrow> [] | Some t \<Rightarrow> t) (inputText r);
          activeSocket = (socketRef s \<or> socket r);
          activeSessionId = or_else (sessionIdRef s) (sessionId r)
      in if trim textToSend = [] \<or> \<not> activeSocket \<or> activeSessionId = [] then
           (if \<not> activeSocket \<or> activeSessionId = [] then
              issue [Console_error ''[Message] Cannot send:'', Alert not_connected_notice] s
            else issue [Console_error ''[Message] Cannot send:''] s)
         else
           (issue [Emit_user_message activeSessionId textToSend]
              (s\<lparr>messages := messages s @
                    [\<lparr>msg_id = Time_id (clock s), msg_text = textToSend,
                      msg_sender = User, msg_timestamp = clock s, audioUrl = None\<rparr>],
                  showChat := True\<rparr>))
           \<lparr>inputText := []\<rparr>)"

definition onresult_clip :: "clip_state \<Rightarrow> speech_event \<Rightarrow> clip_state \<Rightarrow> clip_state" where
  "onresult_clip r ev s =
     (let finalText = finalText_of ev;
          currentText = or_else finalText (interimText_of ev);
          s1 = (if currentText \<noteq> [] then
                  s\<lparr>lastTranscriptRef := currentText, interimTranscript := currentText\<rparr>
                else s)
      in if finalText \<noteq> [] \<and> conversationMode r then
           (handleSendMessage_clip_in r (Some finalText) s1)
             \<lparr>interimTranscript := [], lastTranscriptRef := []\<rparr>
         else s1)"

definition onspeechend_clip :: "clip_state \<Rightarrow> clip_state" where
  "onspeechend_clip s = (issue [SetTimeout Silence_timer 500] s)\<lparr>silenceTimer := True\<rparr>"

text \<open>
  \<open>silenceTimer\<close> is a variable of the effect itself, shared by the handlers. The
  callback of the silence timer:
\<close>

definition silence_timeout :: "clip_state \<Rightarrow> clip_state \<Rightarrow> clip_state" where
  "silence_timeout r s =
     (let textToSend = trim (lastTranscriptRef s)
      in if textToSend \<noteq> [] \<and> conversationMode r then
           (handleSendMessage_clip_in r (Some textToSend) s)
             \<lparr>interimTranscript := [], lastTranscriptRef := []\<rparr>
         else s)"

definition onspeechstart_clip :: "clip_state \<Rightarrow> clip_state" where
  "onspeechstart_clip s =
     (if silenceTimer s then issue [ClearTimeout Silence_timer] s else s)
       \<lparr>lastTranscriptRef := []\<rparr>"

definition onerror_clip :: "clip_state \<Rightarrow> string \<Rightarrow> clip_state \<Rightarrow> clip_state" where
  "onerror_clip r err s =
     (let s1 = issue [Console_error ''[Speech] Error:''] s
      in if err = ''no-speech'' then
           (if conversationMode r then issue [SetTimeout OnError_restart 1000] s1 else s1)
         else if err = ''aborted'' then
           (if conversationMode r then issue [SetTimeout OnError_restart 500] s1 else s1)
         else s1\<lparr>conversationMode := False, isListening := False\<rparr>)"

text \<open>
  The timer of \<^verbatim>\<open>onend\<close> calls \<^verbatim>\<open>recognition?.start()\<close> in a \<^verbatim>\<open>try\<close> and
  then sets the flag.
\<close>

definition restart_clip :: "clip_state \<Rightarrow> bool \<Rightarrow> clip_state \<Rightarrow> clip_state" where
  "restart_clip r start_raises s =
     (if \<not> isRecognitionRunningRef s then
        (if \<not> recognition r then s\<lparr>isRecognitionRunningRef := True\<rparr>
         else if start_raises then
           issue [Recognition_start, Console_error ''[Speech] Failed to restart:''] s
         else (issue [Recognition_start] s)\<lparr>isRecognitionRunningRef := True\<rparr>)
      else s)"

definition onend_clip :: "clip_state \<Rightarrow> clip_state \<Rightarrow> clip_state" where
  "onend_clip r s =
     (let s1 = s\<lparr>isRecognitionRunningRef := False\<rparr>
      in if conversationMode r \<and> micEnabledRef s1 \<and> \<not> isAIResponding r then
           issue [SetTimeout OnEnd_restart 100] s1
         else s1\<lparr>isListening := False\<rparr>)"

text \<open>The microphone button, which belongs to the latest render.\<close>

definition handleVoiceInput_clip :: "bool \<Rightarrow> clip_state \<Rightarrow> clip_state" where
  "handleVoiceInput_clip start_raises s =
     (if \<not> recognition s then
        issue [Alert ''Speech recognition is not supported in your browser.''] s
      else if isListening s then
        (issue [Recognition_stop] s)
          \<lparr>isRecognitionRunningRef := False, isListening := False, micEnabledRef := False\<rparr>
      else if \<not> isRecognitionRunningRef s then
        (if start_raises then
           issue [Recognition_start, Console_error ''[Speech] Failed to start:''] s
         else (issue [Recognition_start] s)
                \<lparr>isRecognitionRunningRef := True, isListening := True, micEnabledRef := True\<rparr>)
      else s)"

subsubsection \<open>Joining a session\<close>

text \<open>The handler reads no state variable.\<close>

fun load_history_clip :: "nat \<Rightarrow> nat \<Rightarrow> history_entry list \<Rightarrow> clip_message list" where
  "load_history_clip now i [] = []"
| "load_history_clip now i (h # hs) =
     \<lparr>msg_id = History_id i, msg_text = content h,
      msg_sender = (if role h = ''user'' then User else AI), msg_timestamp = now,
      audioUrl = None\<rparr>
     # load_history_clip now (Suc i) hs"

definition session_joined_clip ::
  "string \<Rightarrow> history_entry list option \<Rightarrow> clip_state \<Rightarrow> clip_state" where
  "session_joined_clip sid history s =
     (let s1 = s\<lparr>isConnected := True, sessionIdRef := sid\<rparr>
      in case history of
           None \<Rightarrow> s1
         | Some h \<Rightarrow> if h \<noteq> [] then s1\<lparr>messages := load_history_clip (clock s1) 0 h\<rparr> else s1)"


subsection \<open>The first render and the mount effect\<close>

text \<open>
  The initial values of the \<^verbatim>\<open>useState\<close> and \<^verbatim>\<open>useRef\<close> declarations, for the
  props and the clock given.
\<close>

definition initial_syn :: "session_data option \<Rightarrow> nat \<Rightarrow> syn_state" where
  "initial_syn props now =
     \<lparr>messages = [], inputText = [], isListening = False, isSpeaking = False,
      showChat = False, recognition = False, socket = False, socketRef = False,
      sessionId = [], sessionIdRef = [], isConnected = False, currentAIMessage = [],
      isAIResponding = False, conversationMode = True, audioMode = True,
      interimTranscript = [], isRecognitionRunningRef = False, lastTranscriptRef = [],
      clock = now, effects = [],
      speechSynthesis = False, sessionData = props, speechQueueRef = [],
      isSpeakingRef = False, isConversationLocked = False, synth = []\<rparr>"

definition initial_clip :: "nat \<Rightarrow> clip_state" where
  "initial_clip now =
     \<lparr>messages = [], inputText = [], isListening = False, isSpeaking = False,
      showChat = False, recognition = False, socket = False, socketRef = False,
      sessionId = [], sessionIdRef = [], isConnected = False, currentAIMessage = [],
      isAIResponding = False, conversationMode = True, audioMode = False,
      interimTranscript = [], isRecognitionRunningRef = False, lastTranscriptRef = [],
      clock = now, effects = [],
      audioQueueRef = [], currentAudioRef = None, audioModeRef = False,
      micEnabledRef = False, silenceTimer = False, next_audio = 0, playing = []\<rparr>"

text \<open>
  The effect on \<^verbatim>\<open>[]\<close> builds the detector when the browser has one, takes the
  browser's synthesis when it has one, and opens the socket.
\<close>

definition mount_syn :: "bool \<Rightarrow> bool \<Rightarrow> syn_state \<Rightarrow> syn_state" where
  "mount_syn has_recognition has_synthesis s =
     s\<lparr>recognition := has_recognition, speechSynthesis := has_synthesis,
       socket := True, socketRef := True\<rparr>"

definition mount_clip :: "bool \<Rightarrow> clip_state \<Rightarrow> clip_state" where
  "mount_clip has_recognition s =
     s\<lparr>recognition := has_recognition, socket := True, socketRef := True\<rparr>"

definition connected_clip :: "string \<Rightarrow> clip_state \<Rightarrow> clip_state" where
  "connected_clip sid s = issue [Emit_join_session sid] (s\<lparr>sessionId := sid\<rparr>)"

text \<open>
  The render whose closures the effect on \<^verbatim>\<open>[]\<close> registers is the first one.
  \<^verbatim>\<open>AppWrapper\<close> starts with \<^verbatim>\<open>sessionData\<close> at \<^verbatim>\<open>null\<close>, so the component
  with synthesis is mounted without session data. Of these records the handlers read the
  state variables only.
\<close>

definition first_render_syn :: syn_state where
  "first_render_syn = initial_syn None 0"

definition first_render_clip :: clip_state where
  "first_render_clip = initial_clip 0"


subsection \<open>Runs of the detector around one final result\<close>

text \<open>The detector's events, handled by the handlers of the first render.\<close>

datatype detector_event = Result speech_event | Speech_start | Speech_end | Ended

fun detector_syn :: "detector_event \<Rightarrow> syn_state \<Rightarrow> syn_state" where
  "detector_syn (Result ev) s = onresult_syn ev s"
| "detector_syn Speech_start s = onspeechstart_syn s"
| "detector_syn Speech_end s = onspeechend_syn s"
| "detector_syn Ended s = onend_syn first_render_syn s"

fun run_detector_syn :: "detector_event list \<Rightarrow> syn_state \<Rightarrow> syn_state" where
  "run_detector_syn [] s = s"
| "run_detector_syn (e # es) s = run_detector_syn es (detector_syn e s)"

datatype clip_detector_event =
    Clip_result speech_event
  | Clip_speech_start
  | Clip_speech_end
  | Clip_ended
  | Silence_timeout

fun detector_clip :: "clip_detector_event \<Rightarrow> clip_state \<Rightarrow> clip_state" where
  "detector_clip (Clip_result ev) s = onresult_clip first_render_clip ev s"
| "detector_clip Clip_speech_start s = onspeechstart_clip s"
| "detector_clip Clip_speech_end s = onspeechend_clip s"
| "detector_clip Clip_ended s = onend_clip first_render_clip s"
| "detector_clip Silence_timeout s = silence_timeout first_render_clip s"

fun run_detector_clip :: "clip_detector_event list \<Rightarrow> clip_state \<Rightarrow> clip_state" where
  "run_detector_clip [] s = s"
| "run_detector_clip (e # es) s = run_detector_clip es (detector_clip e s)"

text \<open>
  Before the final result: results without final text, and the start and the end of
  speech. In the component with clips also the end of recognition, but not the firing of
  the silence timer; in the component with synthesis not the end of recognition, which
  is the handler that submits.
\<close>

fun before_final_clip :: "clip_detector_event \<Rightarrow> bool" where
  "before_final_clip (Clip_result ev) = (finalText_of ev = [])"
| "before_final_clip Silence_timeout = False"
| "before_final_clip e = True"

fun before_final_syn :: "detector_event \<Rightarrow> bool" where
  "before_final_syn (Result ev) = (finalText_of ev = [])"
| "before_final_syn Ended = False"
| "before_final_syn e = True"

text \<open>After the final result: any event but a further result.\<close>

fun no_result_clip :: "clip_detector_event \<Rightarrow> bool" where
  "no_result_clip (Clip_result ev) = False"
| "no_result_clip e = True"

fun no_result_syn :: "detector_event \<Rightarrow> bool" where
  "no_result_syn (Result ev) = False"
| "no_result_syn e = True"

subsection \<open>Runs of the playback queues\<close>

text \<open>The segments of the enqueue calls that pass the guard of the call.\<close>

fun accepted_syn :: "playback_event list \<Rightarrow> string list" where
  "accepted_syn [] = []"
| "accepted_syn (Enqueue t # es) = (if trim t \<noteq> [] then t # accepted_syn es else accepted_syn es)"
| "accepted_syn (e # es) = accepted_syn es"

fun accepted_clip :: "clip_event list \<Rightarrow> string list" where
  "accepted_clip [] = []"
| "accepted_clip (Enqueue_clip url # es) =
     (if url \<noteq> [] then url # accepted_clip es else accepted_clip es)"
| "accepted_clip (e # es) = accepted_clip es"

text \<open>
  What the handlers keep true of the speech queue: with nothing at the browser the queue
  is empty and the flag is down; otherwise the browser holds one utterance, the one
  handed over last, and the flag is up.
\<close>

definition sequencer_ok_syn :: "syn_state \<Rightarrow> bool" where
  "sequencer_ok_syn s =
     (case synth s of
        [] \<Rightarrow> speechQueueRef s = [] \<and> \<not> isSpeakingRef s
      | u # us \<Rightarrow>
          us = [] \<and> isSpeakingRef s \<and> spoken (effects s) \<noteq> [] \<and>
          u = Queued (last (spoken (effects s))))"

text \<open>
  What the handlers keep true of the clip queue: the element that plays is the current
  one; the ref follows the audio mode; with the output on and no current element the
  queue is empty; with the output off there is no current element; no queued url is
  empty.
\<close>

definition sequencer_ok_clip :: "clip_state \<Rightarrow> bool" where
  "sequencer_ok_clip c =
     (playing c = (case currentAudioRef c of None \<Rightarrow> [] | Some a \<Rightarrow> [a]) \<and>
      audioModeRef c = audioMode c \<and>
      (audioModeRef c \<and> currentAudioRef c = None \<longrightarrow> audioQueueRef c = []) \<and>
      (\<not> audioModeRef c \<longrightarrow> currentAudioRef c = None) \<and>
      [] \<notin> set (audioQueueRef c))"


fun stays_on :: "clip_event \<Rightarrow> bool" where
  "stays_on (Set_audio b) = b"
| "stays_on e = True"


subsection \<open>Example states and events\<close>

text \<open>
  A mounted component, in a browser with a detector and a synthesis, that has joined
  the session \<open>abc\<close>.
\<close>

definition joined_syn :: syn_state where
  "joined_syn =
     session_joined_syn first_render_syn ''abc'' None
       (connected_syn ''abc'' (socket_connect (mount_syn True True (initial_syn None 0))))"

definition joined_clip :: clip_state where
  "joined_clip =
     session_joined_clip ''abc'' None
       (connected_clip ''abc'' (socket_connect (mount_clip True (initial_clip 0))))"

text \<open>
  The state of that component after two calls of \<^verbatim>\<open>speakChunk\<close> made in a render
  that holds the synthesis: the first text is being spoken, the second one is queued.
\<close>

definition speaking_syn :: syn_state where
  "speaking_syn = run_playback_syn [Enqueue ''Gravity '', Enqueue ''is a force.''] joined_syn"

text \<open>
  The same component while it replays a message: the user has clicked the speaker of the
  message \<open>Welcome\<close> and the synthesis has begun to speak it.
\<close>

definition replaying_syn :: syn_state where
  "replaying_syn = utterance_onstart (Replay ''Welcome'') (handleSpeak_syn ''Welcome'' joined_syn)"

text \<open>A detector event with one result.\<close>

definition interim_event :: "string \<Rightarrow> speech_event" where
  "interim_event t = \<lparr>resultIndex = 0, results = [\<lparr>transcript = t, isFinal = False\<rparr>]\<rparr>"

definition final_event :: "string \<Rightarrow> speech_event" where
  "final_event t = \<lparr>resultIndex = 0, results = [\<lparr>transcript = t, isFinal = True\<rparr>]\<rparr>"

text \<open>
  The component with clips after a click on the microphone button: it listens, and the
  ref \<open>micEnabledRef\<close> is set.
\<close>

definition listening_clip :: clip_state where
  "listening_clip = handleVoiceInput_clip False joined_clip"

definition example_history :: "history_entry list" where
  "example_history =
     [\<lparr>role = ''tutor'', content = ''What is gravity?''\<rparr>,
      \<lparr>role = ''user'', content = ''A force''\<rparr>,
      \<lparr>role = ''tutor'', content = ''Which one?''\<rparr>,
      \<lparr>role = ''user'', content = ''bye''\<rparr>]"

text \<open>The component with clips while it plays the first of two clips.\<close>

definition playing_clip :: clip_state where
  "playing_clip =
     run_playback_clip
       [Set_audio True, Enqueue_clip ''data:audio/mpeg;base64,QQ=='',
        Enqueue_clip ''data:audio/mpeg;base64,Qg=='']
       joined_clip"

section \<open>Properties\<close>

subsection \<open>Auxiliary facts\<close>

lemma user_messages_append: "user_messages (xs @ ys) = user_messages xs @ user_messages ys"
  by (induction xs rule: user_messages.induct) simp_all

lemma spoken_append: "spoken (xs @ ys) = spoken xs @ spoken ys"
  by (induction xs rule: spoken.induct) simp_all

lemma played_append: "played (xs @ ys) = played xs @ played ys"
  by (induction xs rule: played.induct) simp_all

lemma dropWhile_rev_stable:
  "u = [] \<or> \<not> P (hd u) \<Longrightarrow>
     dropWhile P (rev (dropWhile P (rev u))) = rev (dropWhile P (rev u))"
proof (induction u rule: rev_induct)
  case Nil
  then show ?case by simp
next
  case (snoc x xs)
  show ?case
  proof (cases "P x")
    case True
    with snoc.prems have "xs = [] \<or> \<not> P (hd xs)"
      by (cases xs) auto
    with snoc.IH True show ?thesis by simp
  next
    case False
    from snoc.prems have "\<not> P (hd (xs @ [x]))" by simp
    then have "dropWhile P (xs @ [x]) = xs @ [x]"
      by (cases xs) auto
    with False show ?thesis by simp
  qed
qed

lemma trim_trim: "trim (trim t) = trim t"
proof -
  let ?u = "dropWhile is_space t"
  have "?u = [] \<or> \<not> is_space (hd ?u)"
    using hd_dropWhile [of is_space t] by blast
  then have "dropWhile is_space (trim t) = trim t"
    unfolding trim_def by (rule dropWhile_rev_stable)
  then show ?thesis
    by (simp add: trim_def)
qed

lemma trim_Nil: "trim [] = []"
  by (simp add: trim_def)

lemma load_history_texts: "map msg_text (load_history now i h) = map content h"
  by (induction h arbitrary: i) simp_all

lemma load_history_ids: "map msg_id (load_history now i h) = map History_id [i ..< i + length h]"
  by (induction h arbitrary: i) (simp_all add: upt_rec)

lemma load_history_clip_texts: "map msg_text (load_history_clip now i h) = map content h"
  by (induction h arbitrary: i) simp_all

lemma load_history_clip_ids:
  "map msg_id (load_history_clip now i h) = map History_id [i ..< i + length h]"
  by (induction h arbitrary: i) (simp_all add: upt_rec)


text \<open>The definitions that the evaluation of an example unfolds.\<close>

lemmas syn_defs = joined_syn_def session_joined_syn_def connected_syn_def socket_connect_def
  mount_syn_def initial_syn_def first_render_syn_def issue_def Let_def

lemmas clip_defs = joined_clip_def session_joined_clip_def connected_clip_def
  mount_clip_def initial_clip_def first_render_clip_def

lemmas ev_defs = interim_event_def final_event_def finalText_of_def interimText_of_def
  or_else_def trim_def is_space_def

lemmas speech_defs = speaking_syn_def speakChunk_def processNextSpeech_def speak_def

lemmas replay_defs = replaying_syn_def handleSpeak_syn_def speak_def

lemmas queue_defs = playing_clip_def enqueueAudio_def playNextAudio_def handleComplete_def
  audio_onended_def audio_onerror_def play_rejected_def play_resolved_def
  setAudioMode_clip_def audioMode_effect_def stopCurrentAudio_def

text \<open>What the handlers of the first render read.\<close>

lemma first_render_syn_reads:
  "conversationMode first_render_syn" "\<not> isConversationLocked first_render_syn"
  "\<not> isAIResponding first_render_syn" "audioMode first_render_syn"
  "\<not> recognition first_render_syn" "\<not> speechSynthesis first_render_syn"
  "\<not> socket first_render_syn" "sessionId first_render_syn = []"
  "inputText first_render_syn = []" "sessionData first_render_syn = None"
  by (simp_all add: first_render_syn_def initial_syn_def)

lemma first_render_clip_reads:
  "conversationMode first_render_clip" "\<not> isAIResponding first_render_clip"
  "\<not> audioMode first_render_clip" "\<not> recognition first_render_clip"
  "\<not> socket first_render_clip" "sessionId first_render_clip = []"
  "inputText first_render_clip = []"
  by (simp_all add: first_render_clip_def initial_clip_def)

text \<open>
  In the render that is the current state, the functions built in a render are the
  functions of the latest render.
\<close>

lemma handleSendMessage_in_latest:
  "handleSendMessage_syn_in s m s = handleSendMessage_syn m s"
  "handleSendMessage_clip_in c m c = handleSendMessage_clip m c"
  "speakChunk_in s t s = speakChunk t s"
  by (simp_all add: handleSendMessage_syn_in_def handleSendMessage_syn_def
        activeSessionId_syn_def handleSendMessage_clip_in_def handleSendMessage_clip_def
        speakChunk_in_def speakChunk_def)

lemma load_history_empty: "(load_history now i h = []) = (h = [])"
  by (cases h) simp_all

subsection \<open>Submission without a session (C9)\<close>

text \<open>
  Claim C9. A submission attempted while the component holds no socket or no session id
  is rejected on the spot: the only thing that happens is the notice
  ``Not connected to server. Please wait...'' (after a line on the console, in the
  component with clips); no \<^verbatim>\<open>user_message\<close> is emitted and the message list is
  untouched. This holds for every text, empty or not, typed or spoken.
\<close>

theorem C9_no_session_rejected:
  "(\<not> (socketRef s \<or> socket s) \<or> activeSessionId_syn s = [] \<longrightarrow>
      handleSendMessage_syn m s = issue [Alert not_connected_notice] s \<and>
      user_messages (effects (handleSendMessage_syn m s)) = user_messages (effects s)) \<and>
   (\<not> (socketRef c \<or> socket c) \<or> or_else (sessionIdRef c) (sessionId c) = [] \<longrightarrow>
      handleSendMessage_clip m c =
        issue [Console_error ''[Message] Cannot send:'', Alert not_connected_notice] c \<and>
      user_messages (effects (handleSendMessage_clip m c)) = user_messages (effects c))"
  by (auto simp: handleSendMessage_syn_def handleSendMessage_clip_def Let_def issue_def
        user_messages_append)

text \<open>
  C9 at a mounted component that has not been given a session id yet, with the text
  \<open>hello\<close>.
\<close>

theorem C9_witness:
  "activeSessionId_syn (mount_syn True True (initial_syn None 0)) = [] \<and>
   effects (handleSendMessage_syn (Some ''hello'') (mount_syn True True (initial_syn None 0))) =
     [Alert not_connected_notice] \<and>
   user_messages
     (effects (handleSendMessage_syn (Some ''hello'') (mount_syn True True (initial_syn None 0)))) = [] \<and>
   or_else (sessionIdRef (mount_clip True (initial_clip 0)))
     (sessionId (mount_clip True (initial_clip 0))) = [] \<and>
   effects (handleSendMessage_clip (Some ''hello'') (mount_clip True (initial_clip 0))) =
     [Console_error ''[Message] Cannot send:'', Alert not_connected_notice] \<and>
   user_messages
     (effects (handleSendMessage_clip (Some ''hello'') (mount_clip True (initial_clip 0)))) = []"
  using C9_no_session_rejected
    [where s = "mount_syn True True (initial_syn None 0)" and m = "Some ''hello''"
       and c = "mount_clip True (initial_clip 0)"]
  by (simp add: activeSessionId_syn_def mount_syn_def mount_clip_def initial_syn_def
        initial_clip_def or_else_def issue_def)

subsection \<open>Replaying a message (C10)\<close>

text \<open>
  Claim C10. In a browser with speech synthesis, \<^verbatim>\<open>handleSpeak\<close> called while
  \<open>isSpeaking\<close> is set cancels the synthesis, empties the speech queue and clears both
  speaking flags, and does not speak the requested text; called while \<open>isSpeaking\<close>
  is not set it hands the requested text to the synthesis and leaves the queue alone.
  The requested text is spoken exactly when nothing is speaking.
\<close>

theorem C10_handleSpeak:
  "speechSynthesis s \<Longrightarrow>
   (isSpeaking s \<longrightarrow>
      effects (handleSpeak_syn t s) = effects s @ [Synth_cancel] \<and>
      synth (handleSpeak_syn t s) = [] \<and>
      speechQueueRef (handleSpeak_syn t s) = [] \<and>
      \<not> isSpeakingRef (handleSpeak_syn t s) \<and>
      \<not> isSpeaking (handleSpeak_syn t s)) \<and>
   (\<not> isSpeaking s \<longrightarrow>
      effects (handleSpeak_syn t s) = effects s @ [Speak t] \<and>
      synth (handleSpeak_syn t s) = synth s @ [Replay t] \<and>
      speechQueueRef (handleSpeak_syn t s) = speechQueueRef s) \<and>
   spoken (effects (handleSpeak_syn t s)) =
      spoken (effects s) @ (if isSpeaking s then [] else [t])"
  by (simp add: handleSpeak_syn_def speak_def issue_def spoken_append)

text \<open>
  C10 at the component that speaks \<open>Gravity\<close> with a second chunk queued, and at the
  idle component.
\<close>

theorem C10_witness:
  "speechSynthesis speaking_syn \<and> isSpeaking speaking_syn \<and>
   speechQueueRef speaking_syn = [''is a force.''] \<and>
   effects (handleSpeak_syn ''Welcome'' speaking_syn) =
     [Emit_join_session ''abc'', Speak ''Gravity '', Synth_cancel] \<and>
   speechQueueRef (handleSpeak_syn ''Welcome'' speaking_syn) = [] \<and>
   \<not> isSpeakingRef (handleSpeak_syn ''Welcome'' speaking_syn) \<and>
   \<not> isSpeaking (handleSpeak_syn ''Welcome'' speaking_syn) \<and>
   speechSynthesis joined_syn \<and> \<not> isSpeaking joined_syn \<and>
   effects (handleSpeak_syn ''Welcome'' joined_syn) =
     [Emit_join_session ''abc'', Speak ''Welcome'']"
  using C10_handleSpeak [of speaking_syn "''Welcome''"]
    C10_handleSpeak [of joined_syn "''Welcome''"]
  by (simp add: speech_defs syn_defs ev_defs)

subsection \<open>A segment that fails (C8)\<close>

text \<open>
  Claim C8. The error of a segment is handled as its end is. With synthesis both
  callbacks of a queued utterance are \<^verbatim>\<open>processNextSpeech\<close>: the next queued text is
  handed to the synthesis, or, the queue being empty, the speaking flags are cleared.
  With clips \<^verbatim>\<open>onerror\<close> logs a line and then runs the very handler of
  \<^verbatim>\<open>onended\<close>: for the current element and the output on, the next queued clip
  starts, or, the queue being empty, there is no current element any more and
  \<open>isSpeaking\<close> is cleared.
\<close>

theorem C8_error_as_completion:
  "utterance_onerror u s = utterance_onend u s \<and>
   playback_syn Utterance_error s = playback_syn Utterance_end s \<and>
   (speechQueueRef s = [] \<longrightarrow>
      \<not> isSpeakingRef (utterance_onerror (Queued x) s) \<and>
      \<not> isSpeaking (utterance_onerror (Queued x) s) \<and>
      effects (utterance_onerror (Queued x) s) = effects s) \<and>
   (\<forall>t rest. speechQueueRef s = t # rest \<longrightarrow>
      effects (utterance_onerror (Queued x) s) = effects s @ [Speak t] \<and>
      synth (utterance_onerror (Queued x) s) = synth s @ [Queued t] \<and>
      speechQueueRef (utterance_onerror (Queued x) s) = rest \<and>
      isSpeakingRef (utterance_onerror (Queued x) s)) \<and>
   audio_onerror a c = audio_onended a (issue [Console_error ''[Audio] Playback error:''] c) \<and>
   (currentAudioRef c = Some a \<and> audioModeRef c \<longrightarrow>
      (audioQueueRef c = [] \<longrightarrow>
         currentAudioRef (audio_onerror a c) = None \<and>
         \<not> isSpeaking (audio_onerror a c) \<and>
         played (effects (audio_onerror a c)) = played (effects c)) \<and>
      (\<forall>url rest. audioQueueRef c = url # rest \<and> url \<noteq> [] \<longrightarrow>
         currentAudioRef (audio_onerror a c) = Some (next_audio c) \<and>
         audioQueueRef (audio_onerror a c) = rest \<and>
         played (effects (audio_onerror a c)) = played (effects c) @ [url] \<and>
         effects (audio_onerror a c) =
           effects c @ [Console_error ''[Audio] Playback error:'', Audio_play (next_audio c) url]))"
proof (intro conjI)
  show "utterance_onerror u s = utterance_onend u s"
    by (cases u) simp_all
  show "playback_syn Utterance_error s = playback_syn Utterance_end s"
  proof (cases "synth s")
    case Nil
    then show ?thesis by simp
  next
    case (Cons v vs)
    then show ?thesis by (cases v) simp_all
  qed
  show "speechQueueRef s = [] \<longrightarrow>
      \<not> isSpeakingRef (utterance_onerror (Queued x) s) \<and>
      \<not> isSpeaking (utterance_onerror (Queued x) s) \<and>
      effects (utterance_onerror (Queued x) s) = effects s"
    by (simp add: processNextSpeech_def)
  show "\<forall>t rest. speechQueueRef s = t # rest \<longrightarrow>
      effects (utterance_onerror (Queued x) s) = effects s @ [Speak t] \<and>
      synth (utterance_onerror (Queued x) s) = synth s @ [Queued t] \<and>
      speechQueueRef (utterance_onerror (Queued x) s) = rest \<and>
      isSpeakingRef (utterance_onerror (Queued x) s)"
    by (simp add: processNextSpeech_def speak_def issue_def)
  show "audio_onerror a c = audio_onended a (issue [Console_error ''[Audio] Playback error:''] c)"
    by (simp add: audio_onerror_def audio_onended_def)
  show "currentAudioRef c = Some a \<and> audioModeRef c \<longrightarrow>
      (audioQueueRef c = [] \<longrightarrow>
         currentAudioRef (audio_onerror a c) = None \<and>
         \<not> isSpeaking (audio_onerror a c) \<and>
         played (effects (audio_onerror a c)) = played (effects c)) \<and>
      (\<forall>url rest. audioQueueRef c = url # rest \<and> url \<noteq> [] \<longrightarrow>
         currentAudioRef (audio_onerror a c) = Some (next_audio c) \<and>
         audioQueueRef (audio_onerror a c) = rest \<and>
         played (effects (audio_onerror a c)) = played (effects c) @ [url] \<and>
         effects (audio_onerror a c) =
           effects c @ [Console_error ''[Audio] Playback error:'', Audio_play (next_audio c) url])"
    by (auto simp: audio_onerror_def handleComplete_def playNextAudio_def issue_def Let_def
          played_append)
qed

text \<open>
  C8 at the component that speaks with a second chunk queued, and at the component that
  plays the first of two clips.
\<close>

theorem C8_witness:
  "speechQueueRef speaking_syn = [''is a force.''] \<and>
   effects (utterance_onerror (Queued ''Gravity '') speaking_syn) =
     [Emit_join_session ''abc'', Speak ''Gravity '', Speak ''is a force.''] \<and>
   speechQueueRef (utterance_onerror (Queued ''Gravity '') speaking_syn) = [] \<and>
   currentAudioRef playing_clip = Some 0 \<and> audioModeRef playing_clip \<and>
   audioQueueRef playing_clip = [''data:audio/mpeg;base64,Qg==''] \<and>
   currentAudioRef (audio_onerror 0 playing_clip) = Some 1 \<and>
   audioQueueRef (audio_onerror 0 playing_clip) = [] \<and>
   played (effects (audio_onerror 0 playing_clip)) =
     [''data:audio/mpeg;base64,QQ=='', ''data:audio/mpeg;base64,Qg=='']"
  using C8_error_as_completion
    [where s = speaking_syn and x = "''Gravity ''" and c = playing_clip and a = 0]
  by (simp add: speech_defs syn_defs ev_defs queue_defs clip_defs)

subsection \<open>Errors of the detector (C5)\<close>

text \<open>
  Claim C5 as stated has every error outside the whitelist set the lock flag. The
  component with clips has no lock flag: there such an error logs a line and clears
  \<open>conversationMode\<close> and \<open>isListening\<close>, and that is all; the one ref that
  gates its restarts, \<open>micEnabledRef\<close>, stays set.
\<close>

theorem C5_counterexample:
  "conversationMode listening_clip \<and> micEnabledRef listening_clip \<and>
   onerror_clip first_render_clip ''network'' listening_clip =
     (issue [Console_error ''[Speech] Error:''] listening_clip)
       \<lparr>conversationMode := False, isListening := False\<rparr> \<and>
   micEnabledRef (onerror_clip first_render_clip ''network'' listening_clip)"
  by (simp add: listening_clip_def handleVoiceInput_clip_def onerror_clip_def clip_defs
        socket_connect_def issue_def Let_def)

text \<open>
  Claim C5, amended. While conversation mode is on, a \<open>no-speech\<close> error sets a
  restart timer: of 1000 ms with synthesis, as does \<open>aborted\<close>, and after a line on
  the console of 1000 ms with clips, where \<open>aborted\<close> sets one of 500 ms. Any error
  outside the whitelist clears \<open>conversationMode\<close> and \<open>isListening\<close>; with
  synthesis it also sets the lock flag; with clips, where there is no lock flag, it
  changes nothing else.
\<close>

theorem C5_detector_errors:
  "(conversationMode s \<and> (err = ''no-speech'' \<or> err = ''aborted'') \<longrightarrow>
      onerror_syn first_render_syn err s = issue [SetTimeout OnError_restart 1000] s) \<and>
   (err \<noteq> ''no-speech'' \<and> err \<noteq> ''aborted'' \<longrightarrow>
      \<not> conversationMode (onerror_syn first_render_syn err s) \<and>
      \<not> isListening (onerror_syn first_render_syn err s) \<and>
      isConversationLocked (onerror_syn first_render_syn err s) \<and>
      effects (onerror_syn first_render_syn err s) = effects s) \<and>
   (conversationMode c \<longrightarrow>
      onerror_clip first_render_clip ''no-speech'' c =
        issue [Console_error ''[Speech] Error:'', SetTimeout OnError_restart 1000] c \<and>
      onerror_clip first_render_clip ''aborted'' c =
        issue [Console_error ''[Speech] Error:'', SetTimeout OnError_restart 500] c) \<and>
   (err \<noteq> ''no-speech'' \<and> err \<noteq> ''aborted'' \<longrightarrow>
      onerror_clip first_render_clip err c =
        (issue [Console_error ''[Speech] Error:''] c)
          \<lparr>conversationMode := False, isListening := False\<rparr>)"
  by (simp add: onerror_syn_def onerror_clip_def first_render_syn_reads first_render_clip_reads
        issue_def Let_def)

text \<open>
  C5 at the joined components, for the errors \<open>no-speech\<close> and \<open>network\<close>.
\<close>

theorem C5_witness:
  "conversationMode joined_syn \<and>
   effects (onerror_syn first_render_syn ''no-speech'' joined_syn) =
     [Emit_join_session ''abc'', SetTimeout OnError_restart 1000] \<and>
   \<not> conversationMode (onerror_syn first_render_syn ''network'' joined_syn) \<and>
   isConversationLocked (onerror_syn first_render_syn ''network'' joined_syn) \<and>
   conversationMode joined_clip \<and>
   effects (onerror_clip first_render_clip ''no-speech'' joined_clip) =
     [Emit_join_session ''abc'', Console_error ''[Speech] Error:'',
      SetTimeout OnError_restart 1000] \<and>
   \<not> conversationMode (onerror_clip first_render_clip ''network'' joined_clip)"
  using C5_detector_errors [where s = joined_syn and err = "''no-speech''" and c = joined_clip]
    C5_detector_errors [where s = joined_syn and err = "''network''" and c = joined_clip]
  by (simp add: syn_defs clip_defs issue_def)

subsection \<open>History on joining a session (C7)\<close>

text \<open>
  Claim C7 fails on the code with synthesis. The handler of \<^verbatim>\<open>session_joined\<close> does
  turn a history that is not empty into the message list, in its order (entry \<open>i\<close>
  becomes the message with id \<open>history-i\<close>), in both components. But with synthesis
  it speaks nothing, although it calls \<^verbatim>\<open>speakChunk\<close> for the last entry with role
  \<open>tutor\<close>: the \<^verbatim>\<open>speakChunk\<close> it calls is the one of the first render, which
  holds no synthesis. And when no document is uploaded, the effect on the session data,
  which runs because the length of the list has changed, empties the list again, hides
  the chat and sets the lock. The component with clips keeps the list and speaks
  nothing.
\<close>

theorem C7_history_on_join:
  "(h \<noteq> [] \<longrightarrow>
      messages (session_joined_syn first_render_syn sid (Some h) s) =
        load_history (clock s) 0 h \<and>
      map msg_text (messages (session_joined_syn first_render_syn sid (Some h) s)) =
        map content h \<and>
      map msg_id (messages (session_joined_syn first_render_syn sid (Some h) s)) =
        map History_id [0 ..< length h] \<and>
      effects (session_joined_syn first_render_syn sid (Some h) s) = effects s \<and>
      speechQueueRef (session_joined_syn first_render_syn sid (Some h) s) = speechQueueRef s \<and>
      synth (session_joined_syn first_render_syn sid (Some h) s) = synth s \<and>
      (sessionData s = None \<longrightarrow>
         messages (sessionData_effect (session_joined_syn first_render_syn sid (Some h) s)) = [] \<and>
         \<not> showChat (sessionData_effect (session_joined_syn first_render_syn sid (Some h) s)) \<and>
         isConversationLocked
           (sessionData_effect (session_joined_syn first_render_syn sid (Some h) s)))) \<and>
   (h \<noteq> [] \<longrightarrow>
      messages (session_joined_clip sid (Some h) c) = load_history_clip (clock c) 0 h \<and>
      map msg_text (messages (session_joined_clip sid (Some h) c)) = map content h \<and>
      map msg_id (messages (session_joined_clip sid (Some h) c)) = map History_id [0 ..< length h] \<and>
      effects (session_joined_clip sid (Some h) c) = effects c \<and>
      audioQueueRef (session_joined_clip sid (Some h) c) = audioQueueRef c)"
proof (intro conjI impI)
  assume a: "h \<noteq> []"
  let ?s' = "session_joined_syn first_render_syn sid (Some h) s"
  have s': "?s' = s\<lparr>isConnected := True, sessionIdRef := sid,
                     messages := load_history (clock s) 0 h, showChat := True\<rparr>"
    using a
    by (simp add: session_joined_syn_def speakChunk_in_def first_render_syn_reads Let_def
          split: option.splits)
  show m: "messages ?s' = load_history (clock s) 0 h"
    by (simp add: s')
  show "map msg_text (messages ?s') = map content h"
    by (simp add: m load_history_texts)
  show "map msg_id (messages ?s') = map History_id [0 ..< length h]"
    using load_history_ids [of "clock s" 0 h] by (simp add: m)
  show "effects ?s' = effects s" "speechQueueRef ?s' = speechQueueRef s" "synth ?s' = synth s"
    by (simp_all add: s')
  show "messages (sessionData_effect ?s') = []" "\<not> showChat (sessionData_effect ?s')"
    "isConversationLocked (sessionData_effect ?s')" if "sessionData s = None"
    using that a by (simp_all add: s' sessionData_effect_def load_history_empty)
next
  assume a: "h \<noteq> []"
  show m: "messages (session_joined_clip sid (Some h) c) = load_history_clip (clock c) 0 h"
    using a by (simp add: session_joined_clip_def Let_def)
  show "map msg_text (messages (session_joined_clip sid (Some h) c)) = map content h"
    by (simp add: m load_history_clip_texts)
  show "map msg_id (messages (session_joined_clip sid (Some h) c)) = map History_id [0 ..< length h]"
    using load_history_clip_ids [of "clock c" 0 h] by (simp add: m)
  show "effects (session_joined_clip sid (Some h) c) = effects c"
    using a by (simp add: session_joined_clip_def Let_def)
  show "audioQueueRef (session_joined_clip sid (Some h) c) = audioQueueRef c"
    using a by (simp add: session_joined_clip_def Let_def)
qed

text \<open>
  C7 at the failing input: the component with synthesis, mounted without a document in a
  browser with a synthesis, the audio output on, joins a session whose history has four
  entries, two of them of the tutor. Nothing is spoken, and after the effect the chat is
  empty and locked.
\<close>

theorem C7_witness:
  "example_history \<noteq> [] \<and> sessionData joined_syn = None \<and>
   audioMode joined_syn \<and> speechSynthesis joined_syn \<and>
   map msg_text (messages (session_joined_syn first_render_syn ''abc'' (Some example_history) joined_syn)) =
     [''What is gravity?'', ''A force'', ''Which one?'', ''bye''] \<and>
   spoken (effects (session_joined_syn first_render_syn ''abc'' (Some example_history) joined_syn)) = [] \<and>
   speechQueueRef (session_joined_syn first_render_syn ''abc'' (Some example_history) joined_syn) = [] \<and>
   messages
     (sessionData_effect
        (session_joined_syn first_render_syn ''abc'' (Some example_history) joined_syn)) = [] \<and>
   isConversationLocked
     (sessionData_effect
        (session_joined_syn first_render_syn ''abc'' (Some example_history) joined_syn)) \<and>
   map msg_text (messages (session_joined_clip ''abc'' (Some example_history) joined_clip)) =
     [''What is gravity?'', ''A force'', ''Which one?'', ''bye'']"
  using C7_history_on_join
    [where s = joined_syn and h = example_history and sid = "''abc''" and c = joined_clip]
  by (simp add: example_history_def speakChunk_in_def sessionData_effect_def syn_defs clip_defs)

subsection \<open>Starting the detector during playback (C2)\<close>

text \<open>
  Claim C2 fails on the code. The microphone button starts the detector whenever a
  detector exists and the component is not listening: it reads neither \<open>isSpeaking\<close>
  nor anything else of the playback, so it starts the detector while the synthesis
  speaks. The restart timers, for their part, never start the detector, whatever is
  played: the handlers that set them belong to the first render, where
  \<^verbatim>\<open>recognition\<close> is \<^verbatim>\<open>null\<close>, so the end of a response sets no timer, the timer
  of \<^verbatim>\<open>onerror\<close> calls nothing, and the timer of \<^verbatim>\<open>onend\<close> fails in its
  \<^verbatim>\<open>try\<close>.
\<close>

theorem C2_start_ignores_playback:
  "(recognition s \<and> \<not> isListening s \<and> \<not> isRecognitionRunningRef s \<longrightarrow>
      effects (handleVoiceInput_syn False s) = effects s @ [Recognition_start] \<and>
      synth (handleVoiceInput_syn False s) = synth s \<and>
      isSpeaking (handleVoiceInput_syn False s) = isSpeaking s \<and>
      speechQueueRef (handleVoiceInput_syn False s) = speechQueueRef s) \<and>
   effects (ai_complete_syn first_render_syn r s) = effects s \<and>
   effects (onerror_restart first_render_syn s) = effects s \<and>
   effects (restart_syn first_render_syn b s) =
     effects s @
       (if isRecognitionRunningRef s then [] else [Console_error ''[Speech] Failed to restart:''])"
  by (simp add: handleVoiceInput_syn_def ai_complete_syn_def onerror_restart_def restart_syn_def
        first_render_syn_reads issue_def Let_def)

text \<open>
  C2 at the failing input: the user replays the message \<open>Welcome\<close> and, while the
  synthesis speaks it, clicks the microphone button. The detector is started with the
  utterance still at the synthesis and \<open>isSpeaking\<close> set.
\<close>

theorem C2_witness:
  "recognition replaying_syn \<and> \<not> isListening replaying_syn \<and>
   \<not> isRecognitionRunningRef replaying_syn \<and>
   isSpeaking replaying_syn \<and> synth replaying_syn = [Replay ''Welcome''] \<and>
   effects replaying_syn = [Emit_join_session ''abc'', Speak ''Welcome''] \<and>
   effects (handleVoiceInput_syn False replaying_syn) =
     [Emit_join_session ''abc'', Speak ''Welcome'', Recognition_start] \<and>
   isSpeaking (handleVoiceInput_syn False replaying_syn) \<and>
   synth (handleVoiceInput_syn False replaying_syn) = [Replay ''Welcome'']"
  using C2_start_ignores_playback [of replaying_syn]
  by (simp add: replay_defs syn_defs)

subsection \<open>Submission after a disconnect (C6)\<close>

text \<open>
  Claim C6 fails on the code. The handler of \<^verbatim>\<open>disconnect\<close> clears
  \<open>isConnected\<close> and nothing else, and \<^verbatim>\<open>handleSendMessage\<close> does not read
  \<open>isConnected\<close>: a submission after the disconnect does what it would have done
  before it.
\<close>

theorem C6_submission_ignores_disconnect:
  "\<not> isConnected (socket_disconnect s) \<and>
   handleSendMessage_syn m (socket_disconnect s) = socket_disconnect (handleSendMessage_syn m s) \<and>
   effects (handleSendMessage_syn m (socket_disconnect s)) = effects (handleSendMessage_syn m s) \<and>
   \<not> isConnected (socket_disconnect c) \<and>
   handleSendMessage_clip m (socket_disconnect c) = socket_disconnect (handleSendMessage_clip m c) \<and>
   effects (handleSendMessage_clip m (socket_disconnect c)) = effects (handleSendMessage_clip m c)"
  by (simp add: socket_disconnect_def handleSendMessage_syn_def handleSendMessage_clip_def
        activeSessionId_syn_def issue_def Let_def)

text \<open>
  C6 at the failing input: the joined components lose the connection, and the
  submission \<open>hello\<close> is emitted all the same.
\<close>

theorem C6_witness:
  "isConnected joined_syn \<and> \<not> isConnected (socket_disconnect joined_syn) \<and>
   user_messages (effects (handleSendMessage_syn (Some ''hello'') (socket_disconnect joined_syn))) =
     [(''abc'', ''hello'')] \<and>
   map msg_text (messages (handleSendMessage_syn (Some ''hello'') (socket_disconnect joined_syn))) =
     [''hello''] \<and>
   isConnected joined_clip \<and> \<not> isConnected (socket_disconnect joined_clip) \<and>
   user_messages (effects (handleSendMessage_clip (Some ''hello'') (socket_disconnect joined_clip))) =
     [(''abc'', ''hello'')]"
  using C6_submission_ignores_disconnect [of joined_syn "Some ''hello''" joined_clip]
  by (simp add: socket_disconnect_def handleSendMessage_syn_def handleSendMessage_clip_def
        activeSessionId_syn_def syn_defs clip_defs ev_defs)

subsection \<open>One submission per final result (C1)\<close>

lemma detector_clip_frame:
  "conversationMode (detector_clip e c) = conversationMode c \<and>
   socketRef (detector_clip e c) = socketRef c \<and>
   sessionIdRef (detector_clip e c) = sessionIdRef c"
  by (cases e)
     (simp_all add: onresult_clip_def onspeechstart_clip_def onspeechend_clip_def onend_clip_def
        silence_timeout_def handleSendMessage_clip_in_def issue_def Let_def)

lemma before_final_clip_step:
  "before_final_clip e \<Longrightarrow> user_messages (effects (detector_clip e c)) = user_messages (effects c)"
  by (cases e)
     (simp_all add: onresult_clip_def onspeechstart_clip_def onspeechend_clip_def onend_clip_def
        issue_def Let_def user_messages_append)

lemma before_final_clip_run:
  "list_all before_final_clip pre \<Longrightarrow>
     user_messages (effects (run_detector_clip pre c)) = user_messages (effects c) \<and>
     socketRef (run_detector_clip pre c) = socketRef c \<and>
     sessionIdRef (run_detector_clip pre c) = sessionIdRef c"
  by (induction pre arbitrary: c)
     (simp_all add: before_final_clip_step detector_clip_frame)

lemma final_clip_step:
  assumes "socketRef c" and "sessionIdRef c \<noteq> []" and "trim (finalText_of f) \<noteq> []"
  shows "user_messages (effects (onresult_clip first_render_clip f c)) =
           user_messages (effects c) @ [(sessionIdRef c, finalText_of f)]"
    and "lastTranscriptRef (onresult_clip first_render_clip f c) = []"
proof -
  from assms(3) have ne: "finalText_of f \<noteq> []"
    by (auto simp: trim_def)
  show "user_messages (effects (onresult_clip first_render_clip f c)) =
           user_messages (effects c) @ [(sessionIdRef c, finalText_of f)]"
    using assms ne
    by (simp add: onresult_clip_def handleSendMessage_clip_in_def first_render_clip_reads
          Let_def issue_def user_messages_append or_else_def)
  show "lastTranscriptRef (onresult_clip first_render_clip f c) = []"
    using ne by (simp add: onresult_clip_def first_render_clip_reads Let_def or_else_def)
qed

lemma no_result_clip_step:
  "no_result_clip e \<Longrightarrow> lastTranscriptRef c = [] \<Longrightarrow>
     user_messages (effects (detector_clip e c)) = user_messages (effects c) \<and>
     lastTranscriptRef (detector_clip e c) = []"
  by (cases e)
     (simp_all add: onspeechstart_clip_def onspeechend_clip_def onend_clip_def
        silence_timeout_def trim_Nil issue_def Let_def user_messages_append)

lemma no_result_clip_run:
  "list_all no_result_clip post \<Longrightarrow> lastTranscriptRef c = [] \<Longrightarrow>
     user_messages (effects (run_detector_clip post c)) = user_messages (effects c)"
  by (induction post arbitrary: c) (simp_all add: no_result_clip_step)

lemma run_detector_clip_append:
  "run_detector_clip (xs @ ys) c = run_detector_clip ys (run_detector_clip xs c)"
  by (induction xs arbitrary: c) simp_all

lemma one_submission_clip:
  assumes "socketRef c" and "sessionIdRef c \<noteq> []" and "list_all before_final_clip pre"
    and "trim (finalText_of f) \<noteq> []" and "list_all no_result_clip post"
  shows "user_messages (effects (run_detector_clip (pre @ Clip_result f # post) c)) =
           user_messages (effects c) @ [(sessionIdRef c, finalText_of f)]"
proof -
  let ?c1 = "run_detector_clip pre c"
  have e1: "user_messages (effects ?c1) = user_messages (effects c)"
    and so: "socketRef ?c1" and ne: "sessionIdRef ?c1 \<noteq> []"
    and id: "sessionIdRef ?c1 = sessionIdRef c"
    using before_final_clip_run [OF assms(3), of c] assms(1,2) by simp_all
  let ?c2 = "onresult_clip first_render_clip f ?c1"
  have e2: "user_messages (effects ?c2) =
              user_messages (effects c) @ [(sessionIdRef c, finalText_of f)]"
    using final_clip_step(1) [OF so ne assms(4)] e1 id by simp
  have l2: "lastTranscriptRef ?c2 = []"
    by (rule final_clip_step(2) [OF so ne assms(4)])
  show ?thesis
    using no_result_clip_run [OF assms(5) l2] e2 by (simp add: run_detector_clip_append)
qed

lemma detector_syn_frame:
  "conversationMode (detector_syn e s) = conversationMode s \<and>
   socketRef (detector_syn e s) = socketRef s \<and>
   sessionIdRef (detector_syn e s) = sessionIdRef s"
  by (cases e)
     (simp_all add: onresult_syn_def onspeechstart_syn_def onspeechend_syn_def onend_syn_def
        handleSendMessage_syn_in_def issue_def Let_def)

lemma run_detector_syn_append:
  "run_detector_syn (xs @ ys) s = run_detector_syn ys (run_detector_syn xs s)"
  by (induction xs arbitrary: s) simp_all

lemma before_final_syn_step:
  "before_final_syn e \<Longrightarrow> user_messages (effects (detector_syn e s)) = user_messages (effects s)"
  by (cases e)
     (simp_all add: onresult_syn_def onspeechstart_syn_def onspeechend_syn_def
        issue_def Let_def user_messages_append)

lemma before_final_syn_run:
  "list_all before_final_syn pre \<Longrightarrow>
     user_messages (effects (run_detector_syn pre s)) = user_messages (effects s) \<and>
     socketRef (run_detector_syn pre s) = socketRef s \<and>
     sessionIdRef (run_detector_syn pre s) = sessionIdRef s"
  by (induction pre arbitrary: s)
     (simp_all add: before_final_syn_step detector_syn_frame)

lemma final_syn_step:
  "finalText_of f \<noteq> [] \<Longrightarrow>
     user_messages (effects (onresult_syn f s)) = user_messages (effects s) \<and>
     lastTranscriptRef (onresult_syn f s) = finalText_of f \<and>
     socketRef (onresult_syn f s) = socketRef s \<and>
     sessionIdRef (onresult_syn f s) = sessionIdRef s"
  by (simp add: onresult_syn_def Let_def or_else_def)

lemma speech_end_syn_run:
  "list_all (\<lambda>e. e = Speech_end) mid \<Longrightarrow>
     user_messages (effects (run_detector_syn mid s)) = user_messages (effects s) \<and>
     lastTranscriptRef (run_detector_syn mid s) = lastTranscriptRef s \<and>
     socketRef (run_detector_syn mid s) = socketRef s \<and>
     sessionIdRef (run_detector_syn mid s) = sessionIdRef s"
proof (induction mid arbitrary: s)
  case Nil
  then show ?case by simp
next
  case (Cons e mid)
  then have e: "e = Speech_end" and m: "list_all (\<lambda>e. e = Speech_end) mid" by simp_all
  have "user_messages (effects (onspeechend_syn s)) = user_messages (effects s)"
    "lastTranscriptRef (onspeechend_syn s) = lastTranscriptRef s"
    "socketRef (onspeechend_syn s) = socketRef s"
    "sessionIdRef (onspeechend_syn s) = sessionIdRef s"
    by (simp_all add: onspeechend_syn_def issue_def user_messages_append)
  with Cons.IH [OF m, of "onspeechend_syn s"] e show ?case by simp
qed

lemma onend_syn_sends:
  assumes "socketRef s" and "sessionIdRef s \<noteq> []" and "trim (lastTranscriptRef s) \<noteq> []"
  shows "user_messages (effects (onend_syn first_render_syn s)) =
           user_messages (effects s) @ [(sessionIdRef s, trim (lastTranscriptRef s))] \<and>
         lastTranscriptRef (onend_syn first_render_syn s) = []"
proof -
  have t: "trim (trim (lastTranscriptRef s)) \<noteq> []"
    using assms(3) by (simp add: trim_trim)
  show ?thesis
    using assms t
    by (simp add: onend_syn_def handleSendMessage_syn_in_def first_render_syn_reads Let_def
          issue_def user_messages_append or_else_def)
qed

lemma no_result_syn_step:
  "no_result_syn e \<Longrightarrow> lastTranscriptRef s = [] \<Longrightarrow>
     user_messages (effects (detector_syn e s)) = user_messages (effects s) \<and>
     lastTranscriptRef (detector_syn e s) = []"
  by (cases e)
     (simp_all add: onspeechstart_syn_def onspeechend_syn_def onend_syn_def
        trim_Nil issue_def Let_def user_messages_append)

lemma no_result_syn_run:
  "list_all no_result_syn post \<Longrightarrow> lastTranscriptRef s = [] \<Longrightarrow>
     user_messages (effects (run_detector_syn post s)) = user_messages (effects s)"
  by (induction post arbitrary: s) (simp_all add: no_result_syn_step)

lemma one_submission_syn:
  assumes "socketRef s" and "sessionIdRef s \<noteq> []" and "list_all before_final_syn pre"
    and "trim (finalText_of f) \<noteq> []" and "list_all (\<lambda>e. e = Speech_end) mid"
    and "list_all no_result_syn post"
  shows "user_messages (effects (run_detector_syn (pre @ Result f # mid @ Ended # post) s)) =
           user_messages (effects s) @ [(sessionIdRef s, trim (finalText_of f))]"
proof -
  from assms(4) have ne: "finalText_of f \<noteq> []"
    by (auto simp: trim_def)
  let ?s1 = "run_detector_syn pre s"
  have e1: "user_messages (effects ?s1) = user_messages (effects s)"
    and so1: "socketRef ?s1" and id1: "sessionIdRef ?s1 = sessionIdRef s"
    using before_final_syn_run [OF assms(3), of s] assms(1) by simp_all
  let ?s2 = "onresult_syn f ?s1"
  have e2: "user_messages (effects ?s2) = user_messages (effects s)"
    and l2: "lastTranscriptRef ?s2 = finalText_of f"
    and so2: "socketRef ?s2" and id2: "sessionIdRef ?s2 = sessionIdRef s"
    using final_syn_step [OF ne, of ?s1] e1 so1 id1 by simp_all
  let ?s3 = "run_detector_syn mid ?s2"
  have e3: "user_messages (effects ?s3) = user_messages (effects s)"
    and l3: "lastTranscriptRef ?s3 = finalText_of f"
    and so3: "socketRef ?s3" and id3: "sessionIdRef ?s3 = sessionIdRef s"
    using speech_end_syn_run [OF assms(5), of ?s2] e2 l2 so2 id2 by simp_all
  have ne3: "sessionIdRef ?s3 \<noteq> []" and t3: "trim (lastTranscriptRef ?s3) \<noteq> []"
    using id3 assms(2) l3 assms(4) by simp_all
  let ?s4 = "onend_syn first_render_syn ?s3"
  have e4: "user_messages (effects ?s4) =
              user_messages (effects s) @ [(sessionIdRef s, trim (finalText_of f))]"
    and l4: "lastTranscriptRef ?s4 = []"
    using onend_syn_sends [OF so3 ne3 t3] e3 id3 l3 by simp_all
  show ?thesis
    using no_result_syn_run [OF assms(6) l4] e4 by (simp add: run_detector_syn_append)
qed

text \<open>
  Claim C1 as stated fails in three ways. With synthesis the submission carries the
  final text trimmed, not the final text: a final result \<open>'' hi there''\<close> is
  submitted as \<open>''hi there''\<close>. With clips the final result is submitted whatever
  the buffer holds: when the silence timer fires between an interim result and the
  final one, both the interim text and the final text are submitted. And a component
  that has not joined a session submits nothing.
\<close>

theorem C1_counterexample:
  "finalText_of (final_event '' hi there'') = '' hi there'' \<and>
   user_messages
     (effects
        (run_detector_syn
           [Result (interim_event ''hi''), Result (final_event '' hi there''), Speech_end, Ended]
           joined_syn)) = [(''abc'', ''hi there'')] \<and>
   user_messages
     (effects
        (run_detector_clip
           [Clip_result (interim_event ''what is''), Clip_speech_end, Silence_timeout,
            Clip_result (final_event ''what is gravity'')]
           joined_clip)) = [(''abc'', ''what is''), (''abc'', ''what is gravity'')] \<and>
   user_messages
     (effects
        (run_detector_clip
           [Clip_result (interim_event ''hi''), Clip_result (final_event ''hi there'')]
           (mount_clip True (initial_clip 0)))) = []"
  by (simp add: syn_defs clip_defs ev_defs onresult_syn_def onspeechend_syn_def onend_syn_def
        handleSendMessage_syn_in_def settle_delay_def onresult_clip_def
        onspeechend_clip_def silence_timeout_def handleSendMessage_clip_in_def)

text \<open>
  Claim C1, amended. Let conversation mode be on, let the refs hold a socket and a
  session id (\<open>socketRef\<close>, \<open>sessionIdRef\<close>: what the handlers of the detector can
  see of the session), and let the final result carry a text that is not blank.

  With clips: after any events without final text and without a firing of the silence
  timer, then the final result, then any events other than results (the silence timer
  may fire any number of times), exactly one submission has been added, for the session
  of \<open>sessionIdRef\<close>, and its text is the final text as the detector gave it: the
  handler of the result submits and empties the buffer, and the timer then finds nothing
  to send.

  With synthesis: after any events without final text and without an end of
  recognition, then the final result, ends of speech, the end of recognition, and then
  any events other than results, exactly one submission has been added, for the session
  of \<open>sessionIdRef\<close>, and its text is the final text trimmed: the first end of
  recognition submits and empties the buffer, a later one finds nothing to send.
\<close>

theorem C1_one_submission_per_final:
  "(conversationMode c \<and> socketRef c \<and> sessionIdRef c \<noteq> [] \<and>
    list_all before_final_clip pre \<and> trim (finalText_of f) \<noteq> [] \<and>
    list_all no_result_clip post \<longrightarrow>
      user_messages (effects (run_detector_clip (pre @ Clip_result f # post) c)) =
        user_messages (effects c) @ [(sessionIdRef c, finalText_of f)]) \<and>
   (conversationMode s \<and> socketRef s \<and> sessionIdRef s \<noteq> [] \<and>
    list_all before_final_syn pre' \<and> trim (finalText_of f) \<noteq> [] \<and>
    list_all (\<lambda>e. e = Speech_end) mid \<and> list_all no_result_syn post' \<longrightarrow>
      user_messages (effects (run_detector_syn (pre' @ Result f # mid @ Ended # post') s)) =
        user_messages (effects s) @ [(sessionIdRef s, trim (finalText_of f))])"
  using one_submission_clip [of c pre f post] one_submission_syn [of s pre' f mid post']
  by blast

text \<open>
  C1 at the joined components: two interim results and the final result
  \<open>What is gravity?\<close>, after which the silence timer fires twice (clips), or the
  recognition ends twice (synthesis).
\<close>

theorem C1_witness:
  "conversationMode joined_clip \<and> socketRef joined_clip \<and> sessionIdRef joined_clip = ''abc'' \<and>
   conversationMode joined_syn \<and> socketRef joined_syn \<and> sessionIdRef joined_syn = ''abc'' \<and>
   trim (finalText_of (final_event ''What is gravity?'')) \<noteq> [] \<and>
   user_messages
     (effects
        (run_detector_clip
           ([Clip_speech_start, Clip_result (interim_event ''What''),
             Clip_result (interim_event ''What is'')] @
            Clip_result (final_event ''What is gravity?'') #
            [Clip_speech_end, Silence_timeout, Clip_ended, Silence_timeout])
           joined_clip)) = [(''abc'', ''What is gravity?'')] \<and>
   user_messages
     (effects
        (run_detector_syn
           ([Speech_start, Result (interim_event ''What''), Result (interim_event ''What is'')] @
            Result (final_event ''What is gravity?'') # [Speech_end] @ Ended # [Ended, Speech_end])
           joined_syn)) = [(''abc'', ''What is gravity?'')]"
  using C1_one_submission_per_final
    [where c = joined_clip
       and pre = "[Clip_speech_start, Clip_result (interim_event ''What''),
                   Clip_result (interim_event ''What is'')]"
       and f = "final_event ''What is gravity?''"
       and post = "[Clip_speech_end, Silence_timeout, Clip_ended, Silence_timeout]"
       and s = joined_syn
       and pre' = "[Speech_start, Result (interim_event ''What''),
                      Result (interim_event ''What is'')]"
       and mid = "[Speech_end]" and post' = "[Ended, Speech_end]"]
  by (simp add: syn_defs clip_defs ev_defs)

subsection \<open>Playback in the order of the queue (C4)\<close>

lemma accepted_syn_Cons: "accepted_syn (e # es) = accepted_syn [e] @ accepted_syn es"
  by (cases e) simp_all

lemma accepted_clip_Cons: "accepted_clip (e # es) = accepted_clip [e] @ accepted_clip es"
  by (cases e) simp_all

lemma processNextSpeech_ok:
  assumes "synth s = []"
  shows "sequencer_ok_syn (processNextSpeech s) \<and>
         speechSynthesis (processNextSpeech s) = speechSynthesis s \<and>
         spoken (effects (processNextSpeech s)) @ speechQueueRef (processNextSpeech s) =
           spoken (effects s) @ speechQueueRef s"
  using assms
  by (cases "speechQueueRef s")
     (simp_all add: processNextSpeech_def speak_def issue_def sequencer_ok_syn_def spoken_append)

lemma playback_syn_step:
  assumes "sequencer_ok_syn s"
  shows "sequencer_ok_syn (playback_syn e s) \<and>
         speechSynthesis (playback_syn e s) = speechSynthesis s \<and>
         spoken (effects (playback_syn e s)) @ speechQueueRef (playback_syn e s) =
           spoken (effects s) @ speechQueueRef s @
             (if speechSynthesis s then accepted_syn [e] else [])"
proof (cases e)
  case (Enqueue t)
  show ?thesis
  proof (cases "\<not> speechSynthesis s \<or> trim t = []")
    case True
    with Enqueue assms show ?thesis by (auto simp: speakChunk_def)
  next
    case False
    let ?s1 = "s\<lparr>speechQueueRef := speechQueueRef s @ [t]\<rparr>"
    show ?thesis
    proof (cases "isSpeakingRef s")
      case True
      with False Enqueue assms show ?thesis
        by (auto simp: speakChunk_def Let_def sequencer_ok_syn_def split: list.splits)
    next
      case idle: False
      with assms have "synth ?s1 = []"
        by (auto simp: sequencer_ok_syn_def split: list.splits)
      from processNextSpeech_ok [OF this] False idle Enqueue show ?thesis
        by (simp add: speakChunk_def Let_def)
    qed
  qed
next
  case Utterance_end
  show ?thesis
  proof (cases "synth s")
    case Nil
    with Utterance_end assms show ?thesis by simp
  next
    case (Cons u us)
    with assms have u: "u = Queued (last (spoken (effects s)))" and us: "us = []"
      by (auto simp: sequencer_ok_syn_def)
    have "synth (s\<lparr>synth := us\<rparr>) = []" using us by simp
    from processNextSpeech_ok [OF this] Utterance_end Cons u show ?thesis
      by simp
  qed
next
  case Utterance_error
  show ?thesis
  proof (cases "synth s")
    case Nil
    with Utterance_error assms show ?thesis by simp
  next
    case (Cons u us)
    with assms have u: "u = Queued (last (spoken (effects s)))" and us: "us = []"
      by (auto simp: sequencer_ok_syn_def)
    have "synth (s\<lparr>synth := us\<rparr>) = []" using us by simp
    from processNextSpeech_ok [OF this] Utterance_error Cons u show ?thesis
      by simp
  qed
qed

lemma playback_syn_run:
  "sequencer_ok_syn s \<Longrightarrow>
     sequencer_ok_syn (run_playback_syn evs s) \<and>
     spoken (effects (run_playback_syn evs s)) @ speechQueueRef (run_playback_syn evs s) =
       spoken (effects s) @ speechQueueRef s @
         (if speechSynthesis s then accepted_syn evs else [])"
proof (induction evs arbitrary: s)
  case Nil
  then show ?case by simp
next
  case (Cons e evs)
  from playback_syn_step [OF Cons.prems, of e]
  have ok: "sequencer_ok_syn (playback_syn e s)"
    and sy: "speechSynthesis (playback_syn e s) = speechSynthesis s"
    and seg: "spoken (effects (playback_syn e s)) @ speechQueueRef (playback_syn e s) =
           spoken (effects s) @ speechQueueRef s @
             (if speechSynthesis s then accepted_syn [e] else [])"
    by simp_all
  from Cons.IH [OF ok] sy seg show ?case
    using accepted_syn_Cons [of e evs] by simp
qed

lemma playNextAudio_ok:
  assumes "sequencer_ok_clip c"
  shows "sequencer_ok_clip (playNextAudio c) \<and>
         played (effects (playNextAudio c)) @ audioQueueRef (playNextAudio c) =
           played (effects c) @ audioQueueRef c"
  using assms
  by (cases "audioQueueRef c")
     (auto simp: playNextAudio_def sequencer_ok_clip_def issue_def played_append)

lemma playNextAudio_idle_ok:
  assumes "playing c = []" and "currentAudioRef c = None" and "audioModeRef c = audioMode c"
    and "[] \<notin> set (audioQueueRef c)"
  shows "sequencer_ok_clip (playNextAudio c) \<and>
         played (effects (playNextAudio c)) @ audioQueueRef (playNextAudio c) =
           played (effects c) @ audioQueueRef c"
  using assms
  by (cases "audioQueueRef c")
     (auto simp: playNextAudio_def sequencer_ok_clip_def issue_def played_append)

lemma handleComplete_ok:
  assumes "sequencer_ok_clip c"
  shows "sequencer_ok_clip (handleComplete a (c\<lparr>playing := removeAll a (playing c)\<rparr>)) \<and>
         played (effects (handleComplete a (c\<lparr>playing := removeAll a (playing c)\<rparr>))) @
           audioQueueRef (handleComplete a (c\<lparr>playing := removeAll a (playing c)\<rparr>)) =
         played (effects c) @ audioQueueRef c"
proof -
  let ?c0 = "c\<lparr>playing := removeAll a (playing c)\<rparr>"
  let ?c1 = "if currentAudioRef ?c0 = Some a then ?c0\<lparr>currentAudioRef := None\<rparr> else ?c0"
  let ?c2 = "if audioQueueRef ?c1 = [] then ?c1\<lparr>isSpeaking := False\<rparr> else ?c1"
  have h: "handleComplete a ?c0 = playNextAudio ?c2"
    by (simp add: handleComplete_def Let_def)
  show ?thesis
  proof (cases "currentAudioRef c = Some a")
    case True
    with assms have idle: "playing ?c2 = []" "currentAudioRef ?c2 = None"
      "audioModeRef ?c2 = audioMode ?c2" "[] \<notin> set (audioQueueRef ?c2)"
      by (auto simp: sequencer_ok_clip_def)
    have same: "played (effects ?c2) @ audioQueueRef ?c2 = played (effects c) @ audioQueueRef c"
      by simp
    from playNextAudio_idle_ok [OF idle] same h show ?thesis by simp
  next
    case False
    with assms have ok: "sequencer_ok_clip ?c2"
      by (auto simp: sequencer_ok_clip_def split: option.splits)
    have same: "played (effects ?c2) @ audioQueueRef ?c2 = played (effects c) @ audioQueueRef c"
      by simp
    from playNextAudio_ok [OF ok] same h show ?thesis by simp
  qed
qed

lemma issue_console_ok:
  "sequencer_ok_clip (issue [Console_error m] c) = sequencer_ok_clip c \<and>
   played (effects (issue [Console_error m] c)) = played (effects c) \<and>
   audioQueueRef (issue [Console_error m] c) = audioQueueRef c \<and>
   playing (issue [Console_error m] c) = playing c"
  by (simp add: issue_def sequencer_ok_clip_def played_append)

lemma issue_playing_commute:
  "(issue es c)\<lparr>playing := p\<rparr> = issue es (c\<lparr>playing := p\<rparr>)"
  by (simp add: issue_def)

text \<open>
  A step of the clip queue keeps the started clips and appends the accepted one; the
  queued clips stay too, unless the step switches the output off.
\<close>

lemma playback_clip_step:
  assumes "sequencer_ok_clip c"
  shows "sequencer_ok_clip (playback_clip e c) \<and>
         (\<exists>kept. played (effects (playback_clip e c)) @ audioQueueRef (playback_clip e c) =
                  played (effects c) @ kept @ accepted_clip [e] \<and>
                  (kept = audioQueueRef c \<or> (kept = [] \<and> \<not> stays_on e)))"
proof (cases e)
  case (Enqueue_clip url)
  show ?thesis
  proof (cases "url = []")
    case True
    with Enqueue_clip assms show ?thesis by (simp add: enqueueAudio_def)
  next
    case False
    let ?c1 = "c\<lparr>audioQueueRef := audioQueueRef c @ [url]\<rparr>"
    show ?thesis
    proof (cases "audioModeRef c")
      case off: False
      with False Enqueue_clip assms show ?thesis
        by (auto simp: enqueueAudio_def Let_def sequencer_ok_clip_def)
    next
      case True
      show ?thesis
      proof (cases "currentAudioRef c")
        case None
        with True assms False have idle: "playing ?c1 = []" "currentAudioRef ?c1 = None"
          "audioModeRef ?c1 = audioMode ?c1" "[] \<notin> set (audioQueueRef ?c1)"
          by (auto simp: sequencer_ok_clip_def)
        from playNextAudio_idle_ok [OF idle] True False Enqueue_clip show ?thesis
          by (simp add: enqueueAudio_def Let_def)
      next
        case (Some a)
        with True assms False Enqueue_clip show ?thesis
          by (auto simp: enqueueAudio_def Let_def playNextAudio_def sequencer_ok_clip_def)
      qed
    qed
  qed
next
  case (Audio_ended a)
  with handleComplete_ok [OF assms, of a] show ?thesis
    by (simp add: audio_onended_def)
next
  case (Audio_error a)
  let ?c' = "issue [Console_error ''[Audio] Playback error:''] c"
  have ok: "sequencer_ok_clip ?c'" using assms by (simp add: issue_console_ok)
  from handleComplete_ok [OF ok, of a] Audio_error show ?thesis
    by (simp add: audio_onerror_def issue_console_ok issue_playing_commute)
next
  case (Play_rejected a)
  let ?c' = "issue [Console_error ''[Audio] Failed to start playback:''] c"
  have ok: "sequencer_ok_clip ?c'" using assms by (simp add: issue_console_ok)
  from handleComplete_ok [OF ok, of a] Play_rejected show ?thesis
    by (simp add: play_rejected_def issue_console_ok issue_playing_commute)
next
  case Play_resolved
  with assms show ?thesis
    by (simp add: play_resolved_def sequencer_ok_clip_def)
next
  case (Set_audio b)
  show ?thesis
  proof (cases "audioMode c = b")
    case True
    with Set_audio assms show ?thesis by (simp add: setAudioMode_clip_def)
  next
    case False
    show ?thesis
    proof (cases b)
      case True
      let ?c1 = "c\<lparr>audioMode := True, audioModeRef := True\<rparr>"
      from True False assms have idle: "playing ?c1 = []" "currentAudioRef ?c1 = None"
          "audioModeRef ?c1 = audioMode ?c1" "[] \<notin> set (audioQueueRef ?c1)"
        by (auto simp: sequencer_ok_clip_def)
      from playNextAudio_idle_ok [OF idle] True False Set_audio show ?thesis
        by (simp add: setAudioMode_clip_def audioMode_effect_def Let_def)
    next
      case off: False
      with False Set_audio assms show ?thesis
        by (auto simp: setAudioMode_clip_def audioMode_effect_def Let_def stopCurrentAudio_def
              issue_def played_append sequencer_ok_clip_def split: option.splits)
    qed
  qed
qed

lemma playback_clip_run:
  "sequencer_ok_clip c \<Longrightarrow>
     sequencer_ok_clip (run_playback_clip evs c) \<and>
     subseq (played (effects (run_playback_clip evs c)) @ audioQueueRef (run_playback_clip evs c))
       (played (effects c) @ audioQueueRef c @ accepted_clip evs) \<and>
     (list_all stays_on evs \<longrightarrow>
        played (effects (run_playback_clip evs c)) @ audioQueueRef (run_playback_clip evs c) =
          played (effects c) @ audioQueueRef c @ accepted_clip evs)"
proof (induction evs arbitrary: c)
  case Nil
  then show ?case by simp
next
  case (Cons e evs)
  let ?c' = "playback_clip e c"
  from playback_clip_step [OF Cons.prems, of e] obtain kept where
    ok: "sequencer_ok_clip ?c'"
    and seg: "played (effects ?c') @ audioQueueRef ?c' = played (effects c) @ kept @ accepted_clip [e]"
    and kept: "kept = audioQueueRef c \<or> (kept = [] \<and> \<not> stays_on e)"
    by blast
  from Cons.IH [OF ok] have
    ih1: "sequencer_ok_clip (run_playback_clip evs ?c')"
    and ih2: "subseq (played (effects (run_playback_clip evs ?c')) @ audioQueueRef (run_playback_clip evs ?c'))
       (played (effects ?c') @ audioQueueRef ?c' @ accepted_clip evs)"
    and ih3: "list_all stays_on evs \<longrightarrow>
        played (effects (run_playback_clip evs ?c')) @ audioQueueRef (run_playback_clip evs ?c') =
          played (effects ?c') @ audioQueueRef ?c' @ accepted_clip evs"
    by simp_all
  have "subseq kept (audioQueueRef c)"
    using kept by auto
  then have "subseq (played (effects c) @ kept @ accepted_clip [e] @ accepted_clip evs)
      (played (effects c) @ audioQueueRef c @ accepted_clip [e] @ accepted_clip evs)"
    by (intro list_emb_append_mono subseq_order.order_refl)
  with ih2 seg have s: "subseq
      (played (effects (run_playback_clip evs ?c')) @ audioQueueRef (run_playback_clip evs ?c'))
      (played (effects c) @ audioQueueRef c @ accepted_clip (e # evs))"
    using accepted_clip_Cons [of e evs]
    by (metis append.assoc subseq_order.order_trans)
  have "played (effects (run_playback_clip evs ?c')) @ audioQueueRef (run_playback_clip evs ?c') =
          played (effects c) @ audioQueueRef c @ accepted_clip (e # evs)"
    if on: "list_all stays_on (e # evs)"
  proof -
    from on kept have k: "kept = audioQueueRef c" by auto
    from on ih3 have "played (effects (run_playback_clip evs ?c')) @
        audioQueueRef (run_playback_clip evs ?c') =
          (played (effects ?c') @ audioQueueRef ?c') @ accepted_clip evs"
      by simp
    also have "\<dots> = played (effects c) @ audioQueueRef c @ accepted_clip (e # evs)"
      using seg k accepted_clip_Cons [of e evs] by simp
    finally show ?thesis .
  qed
  with ih1 s show ?case by simp
qed

text \<open>
  Claim C4. Start with an idle queue and let any events follow: enqueue calls, and ends
  and errors of segments, in any order (with clips also refused and granted
  \<^verbatim>\<open>play()\<close> calls, reports on elements that play no more, and switches of the
  output).

  With synthesis the browser never holds more than one utterance of the queue, so a
  segment is handed over only after the end or the error of the one before, and that
  utterance is the one handed over last. The texts handed over so far, followed by the
  texts still queued, are the accepted texts of the enqueue calls in their order, so the
  segments start in that order. With nothing at the browser the queue is empty.

  With clips at most one element plays, and it is the current one. The urls played so
  far, followed by the urls still queued, are a subsequence of the accepted urls of
  the enqueue calls in their order; they are all of them when the output is never
  switched off.
\<close>

theorem C4_playback_in_order:
  "(synth s = [] \<and> speechQueueRef s = [] \<and> \<not> isSpeakingRef s \<and> speechSynthesis s \<longrightarrow>
      length (synth (run_playback_syn evs s)) \<le> 1 \<and>
      (synth (run_playback_syn evs s) = [] \<longrightarrow> speechQueueRef (run_playback_syn evs s) = []) \<and>
      (synth (run_playback_syn evs s) \<noteq> [] \<longrightarrow>
         synth (run_playback_syn evs s) =
           [Queued (last (spoken (effects (run_playback_syn evs s))))]) \<and>
      spoken (effects (run_playback_syn evs s)) @ speechQueueRef (run_playback_syn evs s) =
        spoken (effects s) @ accepted_syn evs) \<and>
   (currentAudioRef c = None \<and> playing c = [] \<and> audioQueueRef c = [] \<and>
    audioModeRef c = audioMode c \<longrightarrow>
      length (playing (run_playback_clip cevs c)) \<le> 1 \<and>
      playing (run_playback_clip cevs c) =
        (case currentAudioRef (run_playback_clip cevs c) of None \<Rightarrow> [] | Some a \<Rightarrow> [a]) \<and>
      subseq
        (played (effects (run_playback_clip cevs c)) @ audioQueueRef (run_playback_clip cevs c))
        (played (effects c) @ accepted_clip cevs) \<and>
      (list_all stays_on cevs \<longrightarrow>
         played (effects (run_playback_clip cevs c)) @ audioQueueRef (run_playback_clip cevs c) =
           played (effects c) @ accepted_clip cevs))"
proof (intro conjI impI)
  assume a: "synth s = [] \<and> speechQueueRef s = [] \<and> \<not> isSpeakingRef s \<and> speechSynthesis s"
  then have ok: "sequencer_ok_syn s"
    by (simp add: sequencer_ok_syn_def)
  let ?s' = "run_playback_syn evs s"
  from playback_syn_run [OF ok, of evs] a
  have ok': "sequencer_ok_syn ?s'"
    and seg: "spoken (effects ?s') @ speechQueueRef ?s' = spoken (effects s) @ accepted_syn evs"
    by simp_all
  show "length (synth ?s') \<le> 1"
    using ok' by (cases "synth ?s'") (simp_all add: sequencer_ok_syn_def)
  show "speechQueueRef ?s' = []" if "synth ?s' = []"
    using ok' that by (simp add: sequencer_ok_syn_def)
  show "synth ?s' = [Queued (last (spoken (effects ?s')))]" if "synth ?s' \<noteq> []"
    using ok' that by (cases "synth ?s'") (simp_all add: sequencer_ok_syn_def)
  show "spoken (effects ?s') @ speechQueueRef ?s' = spoken (effects s) @ accepted_syn evs"
    by (rule seg)
next
  assume a: "currentAudioRef c = None \<and> playing c = [] \<and> audioQueueRef c = [] \<and>
    audioModeRef c = audioMode c"
  then have ok: "sequencer_ok_clip c"
    by (simp add: sequencer_ok_clip_def)
  let ?c' = "run_playback_clip cevs c"
  from playback_clip_run [OF ok, of cevs] a
  have ok': "sequencer_ok_clip ?c'"
    and sub: "subseq (played (effects ?c') @ audioQueueRef ?c') (played (effects c) @ accepted_clip cevs)"
    and eq: "list_all stays_on cevs \<longrightarrow>
       played (effects ?c') @ audioQueueRef ?c' = played (effects c) @ accepted_clip cevs"
    by simp_all
  show p: "playing ?c' = (case currentAudioRef ?c' of None \<Rightarrow> [] | Some a \<Rightarrow> [a])"
    using ok' by (simp add: sequencer_ok_clip_def)
  show "length (playing ?c') \<le> 1"
    by (simp add: p split: option.splits)
  show "subseq (played (effects ?c') @ audioQueueRef ?c') (played (effects c) @ accepted_clip cevs)"
    by (rule sub)
  show "played (effects ?c') @ audioQueueRef ?c' = played (effects c) @ accepted_clip cevs"
    if "list_all stays_on cevs"
    using eq that by simp
qed

text \<open>
  C4 at the joined components: three accepted segments and a blank one, enqueued while
  the first two play; one segment ends and one fails.
\<close>

theorem C4_witness:
  "synth joined_syn = [] \<and> speechQueueRef joined_syn = [] \<and> \<not> isSpeakingRef joined_syn \<and>
   speechSynthesis joined_syn \<and>
   spoken
     (effects
        (run_playback_syn
           [Enqueue ''Gravity '', Enqueue ''  '', Enqueue ''is '', Utterance_end,
            Enqueue ''a force.'', Utterance_error]
           joined_syn)) = [''Gravity '', ''is '', ''a force.''] \<and>
   synth
     (run_playback_syn
        [Enqueue ''Gravity '', Enqueue ''  '', Enqueue ''is '', Utterance_end,
         Enqueue ''a force.'', Utterance_error]
        joined_syn) = [Queued ''a force.''] \<and>
   currentAudioRef joined_clip = None \<and> playing joined_clip = [] \<and>
   audioQueueRef joined_clip = [] \<and> audioModeRef joined_clip = audioMode joined_clip \<and>
   played
     (effects
        (run_playback_clip
           [Set_audio True, Enqueue_clip ''url1'', Enqueue_clip ''url2'', Audio_ended 0,
            Enqueue_clip ''url3'', Audio_error 1, Play_rejected 1]
           joined_clip)) = [''url1'', ''url2'', ''url3''] \<and>
   playing
     (run_playback_clip
        [Set_audio True, Enqueue_clip ''url1'', Enqueue_clip ''url2'', Audio_ended 0,
         Enqueue_clip ''url3'', Audio_error 1, Play_rejected 1]
        joined_clip) = [2]"
  using C4_playback_in_order
    [where s = joined_syn
       and evs = "[Enqueue ''Gravity '', Enqueue ''  '', Enqueue ''is '', Utterance_end,
                   Enqueue ''a force.'', Utterance_error]"
       and c = joined_clip
       and cevs = "[Set_audio True, Enqueue_clip ''url1'', Enqueue_clip ''url2'', Audio_ended 0,
                    Enqueue_clip ''url3'', Audio_error 1, Play_rejected 1]"]
  by (simp add: speech_defs syn_defs clip_defs ev_defs queue_defs)

subsection \<open>Switching the audio output off (C3)\<close>






end
